theory Spec2Isabelle
  imports Main "HOL-Library.Word"
begin

unbundle bit_operations_syntax

section \<open>The V4L2 capture source of obs-studio (plugins/linux-v4l2/v4l2-input.c)\<close>

text \<open>
  The development embeds \<^verbatim>\<open>v4l2-input.c\<close> function by function. Integer widths are
  those of the LP64 Linux ABI the plugin is built for: \<^verbatim>\<open>int\<close> and \<^verbatim>\<open>__u32\<close> are 32-bit,
  \<^verbatim>\<open>int_fast32_t\<close>, \<^verbatim>\<open>uint_fast32_t\<close>, \<^verbatim>\<open>size_t\<close> and pointers are 64-bit. Signed
  left shift wraps and signed right shift is arithmetic, as GCC defines them.
\<close>

subsection \<open>Types and constants of the headers\<close>

type_synonym c_int = "32 word"
type_synonym u32 = "32 word"
type_synonym fast32 = "64 word"
type_synonym ptr = "64 word"

text \<open>\<^verbatim>\<open>enum video_format\<close> of libobs (media-io/video-io.h).\<close>

datatype video_format =
    VIDEO_FORMAT_NONE
  | VIDEO_FORMAT_I420
  | VIDEO_FORMAT_NV12
  | VIDEO_FORMAT_YVYU
  | VIDEO_FORMAT_YUY2
  | VIDEO_FORMAT_UYVY
  | VIDEO_FORMAT_RGBA
  | VIDEO_FORMAT_BGRA
  | VIDEO_FORMAT_BGRX

text \<open>
  \<^verbatim>\<open>v4l2_fourcc(a, b, c, d)\<close> of linux/videodev2.h:
  \<^verbatim>\<open>(__u32)(a) | ((__u32)(b) << 8) | ((__u32)(c) << 16) | ((__u32)(d) << 24)\<close>,
  and the pixel format codes the plugin names.
\<close>

definition v4l2_fourcc :: "char \<Rightarrow> char \<Rightarrow> char \<Rightarrow> char \<Rightarrow> u32" where
  "v4l2_fourcc a b c d =
     of_char a OR push_bit 8 (of_char b) OR push_bit 16 (of_char c) OR push_bit 24 (of_char d)"

definition V4L2_PIX_FMT_YVYU :: u32 where
  "V4L2_PIX_FMT_YVYU = v4l2_fourcc CHR ''Y'' CHR ''V'' CHR ''Y'' CHR ''U''"

definition V4L2_PIX_FMT_YUYV :: u32 where
  "V4L2_PIX_FMT_YUYV = v4l2_fourcc CHR ''Y'' CHR ''U'' CHR ''Y'' CHR ''V''"

definition V4L2_PIX_FMT_UYVY :: u32 where
  "V4L2_PIX_FMT_UYVY = v4l2_fourcc CHR ''U'' CHR ''Y'' CHR ''V'' CHR ''Y''"

definition V4L2_PIX_FMT_NV12 :: u32 where
  "V4L2_PIX_FMT_NV12 = v4l2_fourcc CHR ''N'' CHR ''V'' CHR ''1'' CHR ''2''"

definition V4L2_PIX_FMT_YUV420 :: u32 where
  "V4L2_PIX_FMT_YUV420 = v4l2_fourcc CHR ''Y'' CHR ''U'' CHR ''1'' CHR ''2''"

definition V4L2_PIX_FMT_YVU420 :: u32 where
  "V4L2_PIX_FMT_YVU420 = v4l2_fourcc CHR ''Y'' CHR ''V'' CHR ''1'' CHR ''2''"

text \<open>\<^verbatim>\<open>V4L2_CAP_VIDEO_CAPTURE\<close> of linux/videodev2.h, \<^verbatim>\<open>MAP_FAILED\<close> of sys/mman.h,
  \<^verbatim>\<open>MAX_AV_PLANES\<close> of libobs.\<close>

definition V4L2_CAP_VIDEO_CAPTURE :: u32 where
  "V4L2_CAP_VIDEO_CAPTURE = 1"

definition MAP_FAILED :: ptr where
  "MAP_FAILED = - 1"

definition MAX_AV_PLANES :: nat where
  "MAX_AV_PLANES = 8"

subsection \<open>Format mapper and packed tuples\<close>

text \<open>The \<^verbatim>\<open>switch\<close> of \<^verbatim>\<open>v4l2_to_obs_video_format\<close>, its cases in source order. The
  argument is a \<^verbatim>\<open>uint_fast32_t\<close>; the case labels are \<^verbatim>\<open>__u32\<close> constants.\<close>

definition v4l2_to_obs_video_format :: "fast32 \<Rightarrow> video_format" where
  "v4l2_to_obs_video_format format =
     (if format = ucast V4L2_PIX_FMT_YVYU then VIDEO_FORMAT_YVYU
      else if format = ucast V4L2_PIX_FMT_YUYV then VIDEO_FORMAT_YUY2
      else if format = ucast V4L2_PIX_FMT_UYVY then VIDEO_FORMAT_UYVY
      else if format = ucast V4L2_PIX_FMT_NV12 then VIDEO_FORMAT_NV12
      else if format = ucast V4L2_PIX_FMT_YUV420 then VIDEO_FORMAT_I420
      else if format = ucast V4L2_PIX_FMT_YVU420 then VIDEO_FORMAT_I420
      else VIDEO_FORMAT_NONE)"

text \<open>\<^verbatim>\<open>return (a << 16) | (b & 0xffff);\<close> on \<^verbatim>\<open>int\<close>.\<close>

definition pack_tuple :: "c_int \<Rightarrow> c_int \<Rightarrow> c_int" where
  "pack_tuple a b = push_bit 16 a OR (b AND 0xffff)"

text \<open>\<^verbatim>\<open>*a = packed >> 16; *b = packed & 0xffff;\<close> on \<^verbatim>\<open>int\<close>: the two out-parameters
  are returned as a pair.\<close>

definition unpack_tuple :: "c_int \<Rightarrow> c_int \<times> c_int" where
  "unpack_tuple packed = (signed_drop_bit 16 packed, packed AND 0xffff)"

subsection \<open>The source's data\<close>

text \<open>\<^verbatim>\<open>struct v4l2_buffer_data\<close>: \<^verbatim>\<open>length\<close> and \<^verbatim>\<open>start\<close>.\<close>

record v4l2_buffer_data =
  buf_length :: nat
  buf_start :: ptr

text \<open>
  \<^verbatim>\<open>struct v4l2_data\<close>. \<^verbatim>\<open>set_device\<close> is a \<^verbatim>\<open>char *\<close>: \<open>None\<close> is the null pointer.
  \<^verbatim>\<open>thread\<close> is a \<^verbatim>\<open>pthread_t\<close>, zero in the zero-filled allocation of \<^verbatim>\<open>v4l2_create\<close>.
  \<^verbatim>\<open>buf\<close> is the array \<^verbatim>\<open>bzalloc\<close> returned; counts and indices are natural numbers.
\<close>

record v4l2_data =
  source :: nat
  thread :: "64 word"
  event :: nat
  set_device :: "string option"
  set_pixfmt :: fast32
  set_res :: fast32
  set_fps :: fast32
  dev :: int
  frames :: "64 word"
  width :: fast32
  height :: fast32
  pixfmt :: fast32
  linesize :: fast32
  buf_count :: nat
  buf :: "v4l2_buffer_data list"

text \<open>
  \<^verbatim>\<open>struct source_frame\<close> of libobs, without the colour matrix and range that
  \<^verbatim>\<open>video_format_get_parameters\<close> fills with floating-point constants.
\<close>

record source_frame =
  fr_data :: "ptr list"
  fr_linesize :: "u32 list"
  fr_width :: u32
  fr_height :: u32
  fr_timestamp :: "64 word"
  fr_format :: video_format

text \<open>The settings object, read with \<^verbatim>\<open>obs_data_getstring\<close> and \<^verbatim>\<open>obs_data_getint\<close>.\<close>

record settings =
  device_id :: string
  pixelformat :: fast32
  resolution :: fast32
  framerate :: fast32

subsection \<open>The environment: calls made and what they answer\<close>

datatype log_level = LOG_ERROR | LOG_INFO | LOG_DEBUG

datatype request =
    VIDIOC_QUERYCAP
  | VIDIOC_S_FMT u32 u32 u32
  | VIDIOC_S_PARM u32 u32
  | VIDIOC_REQBUFS nat
  | VIDIOC_QUERYBUF nat
  | VIDIOC_QBUF nat
  | VIDIOC_DQBUF
  | VIDIOC_STREAMON
  | VIDIOC_STREAMOFF

text \<open>Every call that leaves the plugin, in the order made.\<close>

datatype effect =
    Blog log_level string
  | V4l2Open "string option"
  | V4l2Close int
  | SysClose int
  | Ioctl int request
  | Bzalloc nat
  | Bfree
  | V4l2Mmap nat nat
  | V4l2Munmap ptr nat
  | EventInit
  | EventSignal nat
  | EventDestroy nat
  | PthreadCreate
  | PthreadJoin "64 word"
  | Select int "64 word" "64 word"
  | OutputVideo nat source_frame
  | OpenDir
  | CloseDir

text \<open>
  What is outside the process: the regions \<^verbatim>\<open>v4l2_mmap\<close> has mapped and
  \<^verbatim>\<open>v4l2_munmap\<close> has not unmapped (by start address), and the calls made so far.
\<close>

record world =
  mapped :: "ptr set"
  trace :: "effect list"

definition emit :: "effect \<Rightarrow> world \<Rightarrow> world" where
  "emit e w = w\<lparr>trace := trace w @ [e]\<rparr>"

text \<open>\<^verbatim>\<open>struct dirent\<close>: the name and \<^verbatim>\<open>d_type\<close>, with \<^verbatim>\<open>DT_DIR\<close> of dirent.h.\<close>

record dirent =
  d_name :: string
  d_type :: "8 word"

definition DT_DIR :: "8 word" where
  "DT_DIR = 4"

text \<open>
  The answers of the kernel and the libraries to one entry point's calls.
  \<^item> \<open>k_open path\<close>: the descriptor \<^verbatim>\<open>v4l2_open\<close> returns, \<open>- 1\<close> on failure;
  \<^item> \<open>k_s_fmt w h f\<close>: \<open>None\<close> when \<^verbatim>\<open>VIDIOC_S_FMT\<close> fails, else the negotiated width,
    height, pixel format and bytes per line;
  \<^item> \<open>k_s_parm n d\<close>: whether \<^verbatim>\<open>VIDIOC_S_PARM\<close> succeeds;
  \<^item> \<open>k_reqbufs\<close>: \<open>None\<close> when \<^verbatim>\<open>VIDIOC_REQBUFS\<close> fails, else the count granted;
  \<^item> \<open>k_querybuf i\<close>: \<open>None\<close> when \<^verbatim>\<open>VIDIOC_QUERYBUF\<close> of buffer \<open>i\<close> fails, else its
    length and offset;
  \<^item> \<open>k_mmap i\<close>: what \<^verbatim>\<open>v4l2_mmap\<close> returns for buffer \<open>i\<close>, \<open>MAP_FAILED\<close> on failure;
  \<^item> \<open>k_event_init\<close>: \<open>None\<close> when \<^verbatim>\<open>os_event_init\<close> fails, else the event;
  \<^item> \<open>k_pthread_create\<close>: \<open>None\<close> when \<^verbatim>\<open>pthread_create\<close> fails, else the thread id;
  \<^item> \<open>k_opendir\<close>: \<open>None\<close> when \<^verbatim>\<open>opendir\<close> fails, else the entries \<^verbatim>\<open>readdir\<close> yields;
  \<^item> \<open>k_querycap path\<close>: \<open>None\<close> when \<^verbatim>\<open>VIDIOC_QUERYCAP\<close> on the device opened from
    \<open>path\<close> fails, else its card name and capabilities;
  \<^item> \<open>k_qbuf i\<close>, \<open>k_streamon\<close>, \<open>k_streamoff\<close>: whether queueing buffer \<open>i\<close> at start-up,
    \<^verbatim>\<open>VIDIOC_STREAMON\<close> and \<^verbatim>\<open>VIDIOC_STREAMOFF\<close> succeed.
\<close>

record kernel =
  k_open :: "string \<Rightarrow> int"
  k_s_fmt :: "u32 \<Rightarrow> u32 \<Rightarrow> u32 \<Rightarrow> (u32 \<times> u32 \<times> u32 \<times> u32) option"
  k_s_parm :: "u32 \<Rightarrow> u32 \<Rightarrow> bool"
  k_reqbufs :: "nat option"
  k_querybuf :: "nat \<Rightarrow> (nat \<times> nat) option"
  k_mmap :: "nat \<Rightarrow> ptr"
  k_event_init :: "nat option"
  k_pthread_create :: "64 word option"
  k_opendir :: "dirent list option"
  k_querycap :: "string \<Rightarrow> (string \<times> u32) option"
  k_qbuf :: "nat \<Rightarrow> bool"
  k_streamon :: bool
  k_streamoff :: bool

subsection \<open>Buffer pool\<close>

text \<open>
  The loop of \<^verbatim>\<open>v4l2_create_mmap\<close> over the buffer indices still to map. The first
  component is the value returned when the loop decides it: \<open>- 1\<close> on either
  \<^verbatim>\<open>return -1\<close>, \<open>0\<close> when it runs to its end.
\<close>

fun create_mmap_loop ::
  "kernel \<Rightarrow> nat list \<Rightarrow> v4l2_data \<Rightarrow> world \<Rightarrow> int \<times> v4l2_data \<times> world" where
  "create_mmap_loop k [] d w = (0, d, w)"
| "create_mmap_loop k (i # rest) d w =
     (let w1 = emit (Ioctl (dev d) (VIDIOC_QUERYBUF i)) w in
      case k_querybuf k i of
        None \<Rightarrow> (- 1, d, emit (Blog LOG_ERROR ''Failed to query buffer details'') w1)
      | Some (len, off) \<Rightarrow>
          (let p = k_mmap k i;
               w2 = emit (V4l2Mmap len off) w1;
               w3 = (if p = MAP_FAILED then w2 else w2\<lparr>mapped := insert p (mapped w2)\<rparr>);
               d1 = d\<lparr>buf := (buf d)[i := \<lparr>buf_length = len, buf_start = p\<rparr>]\<rparr>
           in if p = MAP_FAILED
              then (- 1, d1, emit (Blog LOG_ERROR ''mmap for buffer failed'') w3)
              else create_mmap_loop k rest d1 w3))"

definition v4l2_create_mmap :: "kernel \<Rightarrow> v4l2_data \<Rightarrow> world \<Rightarrow> int \<times> v4l2_data \<times> world" where
  "v4l2_create_mmap k d w =
     (let w1 = emit (Ioctl (dev d) (VIDIOC_REQBUFS 4)) w in
      case k_reqbufs k of
        None \<Rightarrow> (- 1, d, emit (Blog LOG_ERROR ''Request for buffers failed !'') w1)
      | Some count \<Rightarrow>
          if count < 2
          then (- 1, d, emit (Blog LOG_ERROR ''Device returned less than 2 buffers'') w1)
          else
            (let d1 = d\<lparr>buf_count := count,
                         buf := replicate count \<lparr>buf_length = 0, buf_start = 0\<rparr>\<rparr>;
                 w2 = emit (Bzalloc count) w1
             in create_mmap_loop k [0..<count] d1 w2))"

text \<open>
  The loop of \<^verbatim>\<open>v4l2_destroy_mmap\<close> over \<^verbatim>\<open>buf[0]\<close> .. \<^verbatim>\<open>buf[buf_count - 1]\<close>:
  every entry whose start is not \<^verbatim>\<open>MAP_FAILED\<close> is passed to \<^verbatim>\<open>v4l2_munmap\<close>, also an
  entry still zero from \<^verbatim>\<open>bzalloc\<close>.
\<close>

fun destroy_mmap_loop :: "v4l2_buffer_data list \<Rightarrow> world \<Rightarrow> world" where
  "destroy_mmap_loop [] w = w"
| "destroy_mmap_loop (b # rest) w =
     (if buf_start b \<noteq> MAP_FAILED
      then destroy_mmap_loop rest
             ((emit (V4l2Munmap (buf_start b) (buf_length b)) w)
                \<lparr>mapped := mapped w - {buf_start b}\<rparr>)
      else destroy_mmap_loop rest w)"

text \<open>\<^verbatim>\<open>buf_count\<close> never exceeds the length of the array in a state the plugin builds.\<close>

definition v4l2_destroy_mmap :: "v4l2_data \<Rightarrow> world \<Rightarrow> v4l2_data \<times> world" where
  "v4l2_destroy_mmap d w =
     (let w1 = destroy_mmap_loop (take (buf_count d) (buf d)) w
      in (d\<lparr>buf_count := 0\<rparr>, emit Bfree w1))"

subsection \<open>Plane layout\<close>

text \<open>
  \<^verbatim>\<open>v4l2_prep_obs_frame\<close>: the frame zeroed by \<^verbatim>\<open>memset\<close>, then filled; the second
  component is \<^verbatim>\<open>plane_offsets\<close>. \<^verbatim>\<open>linesize\<close> is unsigned, so the products and
  quotients are those of 64-bit unsigned arithmetic; the frame's fields are \<^verbatim>\<open>uint32_t\<close>.
\<close>

definition v4l2_prep_obs_frame :: "v4l2_data \<Rightarrow> source_frame \<times> 64 word list" where
  "v4l2_prep_obs_frame d =
     (let zero_ls = replicate MAX_AV_PLANES (0 :: u32);
          offs = replicate MAX_AV_PLANES (0 :: 64 word);
          frame = \<lparr>fr_data = replicate MAX_AV_PLANES 0, fr_linesize = zero_ls,
                   fr_width = ucast (width d), fr_height = ucast (height d),
                   fr_timestamp = 0,
                   fr_format = v4l2_to_obs_video_format (pixfmt d)\<rparr>
      in if pixfmt d = ucast V4L2_PIX_FMT_NV12 then
           (frame\<lparr>fr_linesize := zero_ls[0 := ucast (linesize d),
                                          1 := ucast (linesize d div 2)]\<rparr>,
            offs[1 := linesize d * height d])
         else if pixfmt d = ucast V4L2_PIX_FMT_YVU420 then
           (frame\<lparr>fr_linesize := zero_ls[0 := ucast (linesize d),
                                          1 := ucast (linesize d div 2),
                                          2 := ucast (linesize d div 2)]\<rparr>,
            offs[1 := linesize d * height d * 5 div 4,
                 2 := linesize d * height d])
         else if pixfmt d = ucast V4L2_PIX_FMT_YUV420 then
           (frame\<lparr>fr_linesize := zero_ls[0 := ucast (linesize d),
                                          1 := ucast (linesize d div 2),
                                          2 := ucast (linesize d div 2)]\<rparr>,
            offs[1 := linesize d * height d,
                 2 := linesize d * height d * 5 div 4])
         else
           (frame\<lparr>fr_linesize := zero_ls[0 := ucast (linesize d)]\<rparr>, offs))"

subsection \<open>Capture thread\<close>

text \<open>The calls of the thread are collected in a list of its own, in the order made.\<close>

fun start_capture_loop :: "kernel \<Rightarrow> int \<Rightarrow> nat list \<Rightarrow> effect list \<Rightarrow> int \<times> effect list" where
  "start_capture_loop k fd [] tr = (0, tr)"
| "start_capture_loop k fd (i # rest) tr =
     (let tr1 = tr @ [Ioctl fd (VIDIOC_QBUF i)]
      in if k_qbuf k i then start_capture_loop k fd rest tr1
         else (- 1, tr1 @ [Blog LOG_ERROR ''unable to queue buffer'']))"

definition v4l2_start_capture :: "kernel \<Rightarrow> v4l2_data \<Rightarrow> effect list \<Rightarrow> int \<times> effect list" where
  "v4l2_start_capture k d tr =
     (case start_capture_loop k (dev d) [0..<buf_count d] tr of
        (r, tr1) \<Rightarrow>
          if r < 0 then (- 1, tr1)
          else
            (let tr2 = tr1 @ [Ioctl (dev d) VIDIOC_STREAMON]
             in if k_streamon k then (0, tr2)
                else (- 1, tr2 @ [Blog LOG_ERROR ''unable to start stream''])))"

definition v4l2_stop_capture :: "kernel \<Rightarrow> v4l2_data \<Rightarrow> effect list \<Rightarrow> int \<times> effect list" where
  "v4l2_stop_capture k d tr =
     (let tr1 = tr @ [Ioctl (dev d) VIDIOC_STREAMOFF]
      in if k_streamoff k then (0, tr1)
         else (0, tr1 @ [Blog LOG_ERROR ''unable to stop stream'']))"

text \<open>\<^verbatim>\<open>timeval2ns\<close>.\<close>

definition timeval2ns :: "64 word \<Rightarrow> 64 word \<Rightarrow> 64 word" where
  "timeval2ns tv_sec tv_usec = tv_sec * 1000000000 + tv_usec * 1000"

text \<open>
  One pass through the body of the thread's loop, as the rest of the system answers it:
  whether the control context signals the stop event while the thread waits in
  \<^verbatim>\<open>select\<close>, how \<^verbatim>\<open>select\<close> returns, what \<^verbatim>\<open>VIDIOC_DQBUF\<close> answers (the buffer index
  and the timestamp's seconds and microseconds), and whether the \<^verbatim>\<open>VIDIOC_QBUF\<close> that
  requeues the buffer succeeds.
\<close>

datatype select_result = SelectEINTR | SelectError | SelectTimeout | SelectReady

datatype dqbuf_result = DqbufEAGAIN | DqbufError | DqbufOk nat "64 word" "64 word"

record round =
  r_signal :: bool
  r_select :: select_result
  r_dqbuf :: dqbuf_result
  r_qbuf :: bool

text \<open>
  How a run of the thread over a finite list of rounds ends: it returned, it is still
  in its loop when the rounds are used up, or it read \<^verbatim>\<open>data->buf\<close> past its end.
\<close>

datatype 'a outcome = Returned 'a | Running | Fault

text \<open>
  The \<^verbatim>\<open>while\<close> loop of \<^verbatim>\<open>v4l2_thread\<close>. \<open>ev\<close> is the state of the stop event when the
  loop condition is evaluated.

  Modelled from the spec: \<^verbatim>\<open>os_event_try\<close> of libobs on the event created with
  \<^verbatim>\<open>OS_EVENT_TYPE_MANUAL\<close>, "a single manual-reset signal, set by the control context,
  observed by the Capture Thread at the top of its loop": it answers \<^verbatim>\<open>EAGAIN\<close> exactly
  while the event has not been signalled, and the event stays signalled.
\<close>

fun capture_loop ::
  "source_frame \<Rightarrow> 64 word list \<Rightarrow> round list \<Rightarrow> bool \<Rightarrow> v4l2_data \<Rightarrow> effect list
     \<Rightarrow> (v4l2_data \<times> effect list) outcome" where
  "capture_loop out offs [] ev d tr = (if ev then Returned (d, tr) else Running)"
| "capture_loop out offs (r # rest) ev d tr =
     (if ev then Returned (d, tr)
      else
        (let tr1 = tr @ [Select (dev d + 1) 1 0];
             ev1 = (ev \<or> r_signal r)
         in case r_select r of
              SelectEINTR \<Rightarrow> capture_loop out offs rest ev1 d tr1
            | SelectError \<Rightarrow> Returned (d, tr1 @ [Blog LOG_DEBUG ''select failed''])
            | SelectTimeout \<Rightarrow>
                capture_loop out offs rest ev1 d (tr1 @ [Blog LOG_DEBUG ''select timeout''])
            | SelectReady \<Rightarrow>
                (let tr2 = tr1 @ [Ioctl (dev d) VIDIOC_DQBUF]
                 in case r_dqbuf r of
                      DqbufEAGAIN \<Rightarrow> capture_loop out offs rest ev1 d tr2
                    | DqbufError \<Rightarrow>
                        Returned (d, tr2 @ [Blog LOG_DEBUG ''failed to dequeue buffer''])
                    | DqbufOk idx tv_sec tv_usec \<Rightarrow>
                        if idx < length (buf d) then
                          (let start = buf_start (buf d ! idx);
                               frame = out\<lparr>fr_timestamp := timeval2ns tv_sec tv_usec,
                                           fr_data := map (\<lambda>off. start + off) offs\<rparr>;
                               tr3 = tr2 @ [OutputVideo (source d) frame,
                                            Ioctl (dev d) (VIDIOC_QBUF idx)]
                           in if r_qbuf r
                              then capture_loop out offs rest ev1
                                     (d\<lparr>frames := frames d + 1\<rparr>) tr3
                              else Returned
                                     (d, tr3 @ [Blog LOG_DEBUG ''failed to enqueue buffer'']))
                        else Fault)))"

text \<open>\<^verbatim>\<open>v4l2_thread\<close>: both the \<^verbatim>\<open>goto exit\<close> and the end of the loop reach
  \<^verbatim>\<open>v4l2_stop_capture\<close>.\<close>

definition v4l2_thread ::
  "kernel \<Rightarrow> round list \<Rightarrow> bool \<Rightarrow> v4l2_data \<Rightarrow> (v4l2_data \<times> effect list) outcome" where
  "v4l2_thread k rounds ev d =
     (case v4l2_start_capture k d [] of
        (r, tr) \<Rightarrow>
          if r < 0 then Returned (d, snd (v4l2_stop_capture k d tr))
          else
            (let d1 = d\<lparr>frames := 0\<rparr>
             in case v4l2_prep_obs_frame d1 of
                  (out, offs) \<Rightarrow>
                    (case capture_loop out offs rounds ev d1 tr of
                       Returned (d2, tr2) \<Rightarrow>
                         Returned
                           (d2, snd (v4l2_stop_capture k d2
                                  (tr2 @ [Blog LOG_INFO ''Stopped capture after %lu frames''])))
                     | Running \<Rightarrow> Running
                     | Fault \<Rightarrow> Fault)))"

subsection \<open>Device enumeration\<close>

text \<open>
  A property list is the list of its (name, value) items; the property and the settings
  are pointers that callers may pass as null (\<open>None\<close>), and libobs ignores
  \<^verbatim>\<open>obs_property_list_clear\<close>, \<^verbatim>\<open>obs_property_list_add_string\<close> and
  \<^verbatim>\<open>obs_data_setstring\<close> on a null object.
\<close>

type_synonym property = "(string \<times> string) list"

definition obs_property_list_clear :: "property option \<Rightarrow> property option" where
  "obs_property_list_clear p = map_option (\<lambda>_. []) p"

definition obs_property_list_add_string ::
  "property option \<Rightarrow> string \<Rightarrow> string \<Rightarrow> property option" where
  "obs_property_list_add_string p name val = map_option (\<lambda>items. items @ [(name, val)]) p"

definition obs_data_setstring_device_id :: "settings option \<Rightarrow> string \<Rightarrow> settings option" where
  "obs_data_setstring_device_id s val = map_option (\<lambda>x. x\<lparr>device_id := val\<rparr>) s"

text \<open>
  The \<^verbatim>\<open>readdir\<close> loop of \<^verbatim>\<open>v4l2_device_list\<close> over the entries still to read, with
  the flag \<^verbatim>\<open>first\<close>. \<^verbatim>\<open>dstr_resize(&device, 5)\<close> cuts the string back to \<^verbatim>\<open>/dev/\<close>
  before the name is appended.
\<close>

fun device_list_loop ::
  "kernel \<Rightarrow> dirent list \<Rightarrow> bool \<Rightarrow> property option \<Rightarrow> settings option \<Rightarrow> world
     \<Rightarrow> property option \<times> settings option \<times> world" where
  "device_list_loop k [] first prop s w = (prop, s, w)"
| "device_list_loop k (dp # rest) first prop s w =
     (if d_type dp = DT_DIR then device_list_loop k rest first prop s w
      else
        (let device = ''/dev/'' @ d_name dp;
             fd = k_open k device;
             w1 = emit (V4l2Open (Some device)) w
         in if fd = - 1
            then device_list_loop k rest first prop s
                   (emit (Blog LOG_INFO ''Unable to open %s'') w1)
            else
              (let w2 = emit (Ioctl fd VIDIOC_QUERYCAP) w1
               in case k_querycap k device of
                    None \<Rightarrow>
                      device_list_loop k rest first prop s
                        (emit (SysClose fd)
                           (emit (Blog LOG_INFO ''Failed to query capabilities for %s'') w2))
                  | Some (card_name, capabilities) \<Rightarrow>
                      if capabilities AND V4L2_CAP_VIDEO_CAPTURE \<noteq> 0
                      then device_list_loop k rest False
                             (obs_property_list_add_string prop card_name device)
                             (if first then obs_data_setstring_device_id s device else s)
                             (emit (SysClose fd)
                                (emit (Blog LOG_INFO ''Found device '%s' at %s'') w2))
                      else device_list_loop k rest first prop s
                             (emit (SysClose fd)
                                (emit (Blog LOG_INFO
                                   ''%s seems to not support video capture'') w2)))))"

definition v4l2_device_list ::
  "kernel \<Rightarrow> property option \<Rightarrow> settings option \<Rightarrow> world
     \<Rightarrow> property option \<times> settings option \<times> world" where
  "v4l2_device_list k prop s w =
     (let w1 = emit OpenDir w
      in case k_opendir k of
           None \<Rightarrow> (prop, s, w1)
         | Some entries \<Rightarrow>
             (case device_list_loop k entries True (obs_property_list_clear prop) s w1 of
                (prop1, s1, w2) \<Rightarrow> (prop1, s1, emit CloseDir w2)))"

subsection \<open>Session controller\<close>

definition v4l2_terminate :: "v4l2_data \<Rightarrow> world \<Rightarrow> v4l2_data \<times> world" where
  "v4l2_terminate d w =
     (let w1 = (if thread d \<noteq> 0
                then emit (EventDestroy (event d))
                       (emit (PthreadJoin (thread d)) (emit (EventSignal (event d)) w))
                else w)
      in case (if buf_count d \<noteq> 0 then v4l2_destroy_mmap d w1 else (d, w1)) of
           (d2, w2) \<Rightarrow>
             if dev d2 \<noteq> - 1
             then (d2\<lparr>dev := - 1\<rparr>, emit (V4l2Close (dev d2)) w2)
             else (d2, w2))"

text \<open>
  \<^verbatim>\<open>v4l2_init\<close> is embedded section by section, each up to its end (\<open>Inr\<close>) or to its
  first \<^verbatim>\<open>goto fail\<close> (\<open>Inl\<close>), with the state reached there.

  First the sections that open the device, "set pixel format and resolution" and "set
  framerate". The third argument of \<^verbatim>\<open>unpack_tuple\<close> is an \<^verbatim>\<open>int\<close>, and the fields of
  \<^verbatim>\<open>struct v4l2_format\<close> are \<^verbatim>\<open>__u32\<close>: the stored 64-bit values are cut to 32 bits.
  A null \<^verbatim>\<open>set_device\<close> cannot be opened.
\<close>

definition init_negotiate ::
  "kernel \<Rightarrow> v4l2_data \<Rightarrow> world \<Rightarrow> (v4l2_data \<times> world) + (v4l2_data \<times> world)" where
  "init_negotiate k d w =
     (let w1 = emit (Blog LOG_INFO ''Start capture from %s'') w;
          fd = (case set_device d of None \<Rightarrow> - 1 | Some path \<Rightarrow> k_open k path);
          w2 = emit (V4l2Open (set_device d)) w1;
          d1 = d\<lparr>dev := fd\<rparr>
      in if fd = - 1 then Inl (d1, emit (Blog LOG_ERROR ''Unable to open device'') w2)
         else
           (case unpack_tuple (ucast (set_res d1)) of
              (req_w, req_h) \<Rightarrow>
                (let req_f = ucast (set_pixfmt d1);
                     w3 = emit (Ioctl fd (VIDIOC_S_FMT req_w req_h req_f)) w2
                 in case k_s_fmt k req_w req_h req_f of
                      None \<Rightarrow> Inl (d1, emit (Blog LOG_ERROR ''Unable to set format'') w3)
                    | Some (got_w, got_h, got_f, bytesperline) \<Rightarrow>
                        (let d2 = d1\<lparr>width := ucast got_w, height := ucast got_h,
                                     pixfmt := ucast got_f, linesize := ucast bytesperline\<rparr>;
                             w4 = emit (Blog LOG_INFO ''Linesize: %lu Bytes'')
                                    (emit (Blog LOG_INFO ''Resolution: %lux%lu'') w3)
                         in case unpack_tuple (ucast (set_fps d2)) of
                              (fps_num, fps_denom) \<Rightarrow>
                                (let w5 = emit (Ioctl fd (VIDIOC_S_PARM fps_num fps_denom)) w4
                                 in if \<not> k_s_parm k fps_num fps_denom
                                    then Inl (d2, emit (Blog LOG_ERROR
                                                          ''Unable to set framerate'') w5)
                                    else Inr (d2, emit (Blog LOG_INFO
                                                          ''Framerate: %s fps'') w5))))))"

text \<open>
  The section "start the capture thread". When \<^verbatim>\<open>os_event_init\<close> or \<^verbatim>\<open>pthread_create\<close>
  fails, \<^verbatim>\<open>event\<close> and \<^verbatim>\<open>thread\<close> keep the value they had.
\<close>

definition init_start_thread ::
  "kernel \<Rightarrow> v4l2_data \<Rightarrow> world \<Rightarrow> (v4l2_data \<times> world) + (v4l2_data \<times> world)" where
  "init_start_thread k d w =
     (let w1 = emit EventInit w
      in case k_event_init k of
           None \<Rightarrow> Inl (d, w1)
         | Some e \<Rightarrow>
             (let d1 = d\<lparr>event := e\<rparr>;
                  w2 = emit PthreadCreate w1
              in case k_pthread_create k of
                   None \<Rightarrow> Inl (d1, w2)
                 | Some t \<Rightarrow> Inr (d1\<lparr>thread := t\<rparr>, w2)))"

text \<open>The sections in order, with "map buffers" between them.\<close>

definition v4l2_init_body ::
  "kernel \<Rightarrow> v4l2_data \<Rightarrow> world \<Rightarrow> (v4l2_data \<times> world) + (v4l2_data \<times> world)" where
  "v4l2_init_body k d w =
     (case init_negotiate k d w of
        Inl failed \<Rightarrow> Inl failed
      | Inr (d1, w1) \<Rightarrow>
          (case v4l2_create_mmap k d1 w1 of
             (r, d2, w2) \<Rightarrow>
               if r < 0 then Inl (d2, emit (Blog LOG_ERROR ''Failed to map buffers'') w2)
               else init_start_thread k d2 w2))"

text \<open>\<^verbatim>\<open>v4l2_init\<close>: the label \<^verbatim>\<open>fail\<close> logs and calls \<^verbatim>\<open>v4l2_terminate\<close>.\<close>

definition v4l2_init :: "kernel \<Rightarrow> v4l2_data \<Rightarrow> world \<Rightarrow> v4l2_data \<times> world" where
  "v4l2_init k d w =
     (case v4l2_init_body k d w of
        Inr started \<Rightarrow> started
      | Inl (d1, w1) \<Rightarrow> v4l2_terminate d1 (emit (Blog LOG_ERROR ''Initialization failed'') w1))"

text \<open>
  The opening of \<^verbatim>\<open>v4l2_update\<close>: with a blank \<^verbatim>\<open>device_id\<close> the devices are
  enumerated with a null property and the settings, and the settings are read again.
  The result is the settings object as the enumeration leaves it.
\<close>

definition update_device_id :: "kernel \<Rightarrow> settings \<Rightarrow> world \<Rightarrow> settings \<times> world" where
  "update_device_id k s w =
     (if length (device_id s) = 0
      then (case v4l2_device_list k None (Some s) w of
              (_, Some s', w') \<Rightarrow> (s', w')
            | (_, None, w') \<Rightarrow> (s, w'))
      else (s, w))"

text \<open>
  The four comparisons of \<^verbatim>\<open>v4l2_update\<close>, in source order: each stores the new value
  and sets \<^verbatim>\<open>restart\<close> when it differs from the stored one. The strings \<^verbatim>\<open>bfree\<close> and
  \<^verbatim>\<open>bstrdup\<close> handle are the values of \<open>set_device\<close>. The result is the data and
  \<^verbatim>\<open>restart\<close>.
\<close>

definition store_settings :: "settings \<Rightarrow> v4l2_data \<Rightarrow> v4l2_data \<times> bool" where
  "store_settings s d =
     (let new_device = device_id s;
          differs = (case set_device d of None \<Rightarrow> True | Some old \<Rightarrow> old \<noteq> new_device);
          d1 = (if differs then d\<lparr>set_device := Some new_device\<rparr> else d);
          restart1 = differs;
          d2 = (if set_pixfmt d1 \<noteq> pixelformat s
                then d1\<lparr>set_pixfmt := pixelformat s\<rparr> else d1);
          restart2 = (restart1 \<or> set_pixfmt d1 \<noteq> pixelformat s);
          d3 = (if set_res d2 \<noteq> resolution s
                then d2\<lparr>set_res := resolution s\<rparr> else d2);
          restart3 = (restart2 \<or> set_res d2 \<noteq> resolution s);
          d4 = (if set_fps d3 \<noteq> framerate s
                then d3\<lparr>set_fps := framerate s\<rparr> else d3);
          restart = (restart3 \<or> set_fps d3 \<noteq> framerate s)
      in (d4, restart))"

text \<open>\<^verbatim>\<open>v4l2_update\<close>: the two parts above, then \<^verbatim>\<open>if (restart)\<close>.\<close>

definition v4l2_update ::
  "kernel \<Rightarrow> settings \<Rightarrow> v4l2_data \<Rightarrow> world \<Rightarrow> settings \<times> v4l2_data \<times> world" where
  "v4l2_update k s d w =
     (case update_device_id k s w of
        (s1, w1) \<Rightarrow>
          (case store_settings s1 d of
             (d4, restart) \<Rightarrow>
               if restart
               then (case v4l2_terminate d4 w1 of
                       (d5, w2) \<Rightarrow> (case v4l2_init k d5 w2 of (d6, w3) \<Rightarrow> (s1, d6, w3)))
               else (s1, d4, w1)))"

text \<open>\<^verbatim>\<open>v4l2_create\<close>: the zero-filled structure with \<^verbatim>\<open>dev = -1\<close>, then an update.\<close>

definition v4l2_create :: "kernel \<Rightarrow> settings \<Rightarrow> nat \<Rightarrow> world \<Rightarrow> settings \<times> v4l2_data \<times> world" where
  "v4l2_create k s src w =
     v4l2_update k s
       \<lparr>source = src, thread = 0, event = 0, set_device = None, set_pixfmt = 0,
        set_res = 0, set_fps = 0, dev = - 1, frames = 0, width = 0, height = 0,
        pixfmt = 0, linesize = 0, buf_count = 0, buf = []\<rparr> w"

subsection \<open>Observations on the calls made\<close>

fun is_streamoff :: "effect \<Rightarrow> bool" where
  "is_streamoff (Ioctl fd VIDIOC_STREAMOFF) = True"
| "is_streamoff _ = False"

fun is_output_video :: "effect \<Rightarrow> bool" where
  "is_output_video (OutputVideo src frame) = True"
| "is_output_video _ = False"

fun is_select :: "effect \<Rightarrow> bool" where
  "is_select (Select nfds tv_sec tv_usec) = True"
| "is_select _ = False"

text \<open>The calls on the capture thread and its stop event.\<close>

fun is_thread_call :: "effect \<Rightarrow> bool" where
  "is_thread_call EventInit = True"
| "is_thread_call (EventSignal e) = True"
| "is_thread_call (EventDestroy e) = True"
| "is_thread_call PthreadCreate = True"
| "is_thread_call (PthreadJoin t) = True"
| "is_thread_call _ = False"

subsection \<open>Concrete devices and settings\<close>

text \<open>
  A device node \<^verbatim>\<open>/dev/video0\<close> that accepts what is requested, grants two buffers and
  maps them at distinct addresses.
\<close>

definition camera :: kernel where
  "camera =
     \<lparr>k_open = (\<lambda>path. if path = ''/dev/video0'' then 5 else - 1),
      k_s_fmt = (\<lambda>w h f. Some (w, h, f, 2 * w)),
      k_s_parm = (\<lambda>n d. True),
      k_reqbufs = Some 2,
      k_querybuf = (\<lambda>i. Some (4096, i * 4096)),
      k_mmap = (\<lambda>i. 0x10000 * (1 + of_nat i)),
      k_event_init = Some 1,
      k_pthread_create = Some 7,
      k_opendir = Some [\<lparr>d_name = ''video0'', d_type = 2\<rparr>],
      k_querycap = (\<lambda>path. Some (''Webcam'', 1)),
      k_qbuf = (\<lambda>i. True),
      k_streamon = True,
      k_streamoff = True\<rparr>"

text \<open>The same system after the device has been removed: nothing opens.\<close>

definition unplugged :: kernel where
  "unplugged = camera\<lparr>k_open := (\<lambda>path. - 1), k_opendir := Some []\<rparr>"

text \<open>The defaults of \<^verbatim>\<open>v4l2_defaults\<close> with the device chosen.\<close>

definition settings0 :: settings where
  "settings0 =
     \<lparr>device_id = ''/dev/video0'', pixelformat = ucast V4L2_PIX_FMT_YUYV,
      resolution = ucast (pack_tuple 640 480), framerate = ucast (pack_tuple 1 30)\<rparr>"

definition world0 :: world where
  "world0 = \<lparr>mapped = {}, trace = []\<rparr>"

subsection \<open>Rounds of the capture loop\<close>

text \<open>
  A round after which the thread evaluates its loop condition again: \<^verbatim>\<open>select\<close> timed out
  or was interrupted, or the dequeue answered \<^verbatim>\<open>EAGAIN\<close>, or a frame was dequeued from a
  buffer of the pool, delivered and requeued.
\<close>

definition round_continues :: "v4l2_data \<Rightarrow> round \<Rightarrow> bool" where
  "round_continues d r =
     (case r_select r of
        SelectEINTR \<Rightarrow> True
      | SelectError \<Rightarrow> False
      | SelectTimeout \<Rightarrow> True
      | SelectReady \<Rightarrow>
          (case r_dqbuf r of
             DqbufEAGAIN \<Rightarrow> True
           | DqbufError \<Rightarrow> False
           | DqbufOk idx tv_sec tv_usec \<Rightarrow> idx < length (buf d) \<and> r_qbuf r))"

text \<open>A round in which the kernel hands out no buffer index beyond the pool.\<close>

definition round_in_bounds :: "v4l2_data \<Rightarrow> round \<Rightarrow> bool" where
  "round_in_bounds d r =
     (case r_select r of
        SelectReady \<Rightarrow>
          (case r_dqbuf r of
             DqbufOk idx tv_sec tv_usec \<Rightarrow> idx < length (buf d)
           | _ \<Rightarrow> True)
      | _ \<Rightarrow> True)"

subsection \<open>A concrete session and its rounds\<close>

text \<open>The camera refusing to queue buffer 1: start-up fails.\<close>

definition refusing :: kernel where
  "refusing = camera\<lparr>k_qbuf := (\<lambda>i. i = 0)\<rparr>"

text \<open>The source as \<^verbatim>\<open>v4l2_create\<close> leaves it on the camera with the default settings.\<close>

definition session0 :: v4l2_data where
  "session0 =
     \<lparr>source = 1, thread = 7, event = 1, set_device = Some ''/dev/video0'',
      set_pixfmt = 1448695129, set_res = 41943520, set_fps = 65566, dev = 5,
      frames = 0, width = 640, height = 480, pixfmt = 1448695129,
      linesize = 1280, buf_count = 2,
      buf = [\<lparr>buf_length = 4096, buf_start = 65536\<rparr>,
             \<lparr>buf_length = 4096, buf_start = 131072\<rparr>]\<rparr>"

text \<open>A wait that times out, a wait that ends with a frame in buffer 1, and a wait during
  which the stop event is signalled and that ends with a frame in buffer 0.\<close>

definition timeout_round :: round where
  "timeout_round =
     \<lparr>r_signal = False, r_select = SelectTimeout, r_dqbuf = DqbufEAGAIN, r_qbuf = True\<rparr>"

definition frame_round :: round where
  "frame_round =
     \<lparr>r_signal = False, r_select = SelectReady, r_dqbuf = DqbufOk 1 12 500000, r_qbuf = True\<rparr>"

definition stop_round :: round where
  "stop_round = frame_round\<lparr>r_signal := True, r_dqbuf := DqbufOk 0 12 533333\<rparr>"

subsection \<open>A device whose third buffer cannot be mapped\<close>

text \<open>The camera granting four buffers, with \<^verbatim>\<open>v4l2_mmap\<close> failing for buffer index 2.\<close>

definition faulty :: kernel where
  "faulty = camera\<lparr>k_reqbufs := Some 4,
       k_mmap := (\<lambda>i. if i = 2 then MAP_FAILED else 0x10000 * (1 + of_nat i))\<rparr>"

text \<open>The source with the default settings stored and no session.\<close>

definition configured :: v4l2_data where
  "configured =
     \<lparr>source = 1, thread = 0, event = 0, set_device = Some ''/dev/video0'',
      set_pixfmt = 1448695129, set_res = 41943520, set_fps = 65566, dev = - 1,
      frames = 0, width = 0, height = 0, pixfmt = 0, linesize = 0, buf_count = 0, buf = []\<rparr>"

subsection \<open>Stored and supplied configuration\<close>

text \<open>
  The stored configuration equals the settings field by field: device id, pixel format,
  packed resolution and packed frame rate.
\<close>

definition same_settings :: "settings \<Rightarrow> v4l2_data \<Rightarrow> bool" where
  "same_settings s d \<longleftrightarrow>
     set_device d = Some (device_id s) \<and> set_pixfmt d = pixelformat s
     \<and> set_res d = resolution s \<and> set_fps d = framerate s"

subsection \<open>Further concrete states and settings\<close>

text \<open>
  The world in which the two buffers of \<open>session0\<close> are mapped; the default settings at 25
  frames per second, and with a blank device id; the source that stored a blank device
  id and holds no session.
\<close>

definition running_world :: world where
  "running_world = \<lparr>mapped = {0x10000, 0x20000}, trace = []\<rparr>"

definition settings_25fps :: settings where
  "settings_25fps = settings0\<lparr>framerate := ucast (pack_tuple 1 25)\<rparr>"

definition blank_settings :: settings where
  "blank_settings = settings0\<lparr>device_id := []\<rparr>"

definition unnamed :: v4l2_data where
  "unnamed = configured\<lparr>set_device := Some []\<rparr>"

subsection \<open>What the enumeration is to produce\<close>

text \<open>The path \<^verbatim>\<open>v4l2_device_list\<close> builds for a directory entry.\<close>

definition device_path :: "dirent \<Rightarrow> string" where
  "device_path dp = ''/dev/'' @ d_name dp"

text \<open>
  Following the spec: a candidate device node is included only if it can be opened and
  advertises capture capability; entries that are directories, fail to open, fail the
  capability query or lack the capability are skipped.
\<close>

definition capture_device :: "kernel \<Rightarrow> dirent \<Rightarrow> bool" where
  "capture_device k dp \<longleftrightarrow>
     d_type dp \<noteq> DT_DIR \<and> k_open k (device_path dp) \<noteq> - 1
     \<and> (case k_querycap k (device_path dp) of
          None \<Rightarrow> False
        | Some (card_name, capabilities) \<Rightarrow> capabilities AND V4L2_CAP_VIDEO_CAPTURE \<noteq> 0)"

text \<open>The list item of an included device: its card name and its path.\<close>

definition device_item :: "kernel \<Rightarrow> dirent \<Rightarrow> string \<times> string" where
  "device_item k dp =
     (case k_querycap k (device_path dp) of
        None \<Rightarrow> ([], device_path dp)
      | Some (card_name, capabilities) \<Rightarrow> (card_name, device_path dp))"

text \<open>Following the spec: the first enumerated (included) device becomes the default
  device id; without one the settings stay as they are.\<close>

definition default_device :: "kernel \<Rightarrow> dirent list \<Rightarrow> settings \<Rightarrow> settings" where
  "default_device k entries s =
     (case filter (capture_device k) entries of
        [] \<Rightarrow> s
      | dp # _ \<Rightarrow> s\<lparr>device_id := device_path dp\<rparr>)"

text \<open>
  A directory listing with a subdirectory, a node that does not open, a node whose
  capability query fails, a tuner without capture capability and two capture devices.
\<close>

definition sysfs :: kernel where
  "sysfs = camera
     \<lparr>k_opendir := Some [\<lparr>d_name = ''subdir'', d_type = 4\<rparr>, \<lparr>d_name = ''video0'', d_type = 10\<rparr>,
                        \<lparr>d_name = ''video1'', d_type = 10\<rparr>, \<lparr>d_name = ''video2'', d_type = 10\<rparr>,
                        \<lparr>d_name = ''video3'', d_type = 10\<rparr>, \<lparr>d_name = ''video4'', d_type = 10\<rparr>],
      k_open := (\<lambda>path. if path = ''/dev/video0'' then - 1 else 6),
      k_querycap := (\<lambda>path. if path = ''/dev/video1'' then None
                       else if path = ''/dev/video2'' then Some (''Tuner'', 0x10000)
                       else Some (''Webcam'', 0x4000001))\<rparr>"

section \<open>Properties\<close>

lemmas pixfmt_defs =
  V4L2_PIX_FMT_YVYU_def V4L2_PIX_FMT_YUYV_def V4L2_PIX_FMT_UYVY_def
  V4L2_PIX_FMT_NV12_def V4L2_PIX_FMT_YUV420_def V4L2_PIX_FMT_YVU420_def v4l2_fourcc_def

lemmas controller_defs =
  v4l2_create_def v4l2_update_def update_device_id_def store_settings_def
  v4l2_terminate_def v4l2_init_def v4l2_init_body_def init_negotiate_def
  init_start_thread_def v4l2_create_mmap_def
  v4l2_destroy_mmap_def v4l2_device_list_def obs_property_list_clear_def
  obs_property_list_add_string_def obs_data_setstring_device_id_def
  emit_def MAP_FAILED_def DT_DIR_def V4L2_CAP_VIDEO_CAPTURE_def
  pack_tuple_def unpack_tuple_def

lemmas scenario_defs = camera_def unplugged_def settings0_def world0_def

lemma upt_0_2: "[0..<2] = [0, Suc 0]"
  by (simp add: numeral_2_eq_2)

lemma replicate_2: "replicate 2 x = [x, x]"
  by (simp add: numeral_2_eq_2)

lemma replicate_planes: "replicate MAX_AV_PLANES x = [x, x, x, x, x, x, x, x]"
  by (simp add: MAX_AV_PLANES_def numeral_eq_Suc)

subsection \<open>Packed tuples\<close>

lemma mask_0xffff: "(0xffff :: 32 word) = mask 16"
  by (simp add: mask_eq_exp_minus_1)

lemma high_half_bits:
  fixes a :: "32 word"
  assumes "- 32768 \<le> sint a" "sint a \<le> 32767" "15 \<le> n" "n < 32"
  shows "bit a n = bit a 15"
proof -
  have fits: "signed_take_bit 15 (sint a) = sint a"
    using assms by (simp add: signed_take_bit_int_eq_self)
  have "bit a n = bit (sint a) n"
    using assms by (simp add: bit_sint_iff)
  also have "\<dots> = bit (signed_take_bit 15 (sint a)) n"
    by (simp add: fits)
  also have "\<dots> = bit (sint a) 15"
    using assms by (simp add: bit_signed_take_bit_iff min_def)
  also have "\<dots> = bit a 15"
    by (simp add: bit_sint_iff)
  finally show ?thesis .
qed

lemma low_half_bits:
  fixes b :: "32 word"
  assumes "0 \<le> sint b" "sint b \<le> 65535" "16 \<le> n"
  shows "\<not> bit b n"
proof (cases "n < 32")
  case True
  have fits: "take_bit 16 (sint b) = sint b"
    using assms by (simp add: take_bit_int_eq_self)
  have "bit b n = bit (sint b) n"
    using True by (simp add: bit_sint_iff)
  also have "\<dots> = bit (take_bit 16 (sint b)) n"
    by (simp add: fits)
  also have "\<dots> = False"
    using assms by (simp add: bit_take_bit_iff)
  finally show ?thesis by simp
next
  case False
  then show ?thesis by (auto dest: bit_imp_le_length)
qed

text \<open>
  C5, as the code has it. \<^verbatim>\<open>unpack_tuple\<close> returns what \<^verbatim>\<open>pack_tuple\<close> was given
  whenever \<open>a\<close> lies in the signed 16-bit range (it is read back from the high half by
  an arithmetic shift) and \<open>b\<close> in the unsigned 16-bit range (it is read back by the mask
  \<^verbatim>\<open>0xffff\<close>). Both functions are total and have no effect.
\<close>

theorem unpack_pack_tuple:
  fixes a b :: c_int
  assumes "- 32768 \<le> sint a" and "sint a \<le> 32767"
    and "0 \<le> sint b" and "sint b \<le> 65535"
  shows "unpack_tuple (pack_tuple a b) = (a, b)"
proof -
  have high: "signed_drop_bit 16 (push_bit 16 a OR (b AND mask 16)) = a"
  proof (rule bit_word_eqI)
    fix n
    assume "n < LENGTH(32)"
    then show "bit (signed_drop_bit 16 (push_bit 16 a OR (b AND mask 16))) n = bit a n"
      using high_half_bits [OF assms(1,2), of n] high_half_bits [OF assms(1,2), of 31]
      by (auto simp add: bit_simps)
  qed
  have low: "(push_bit 16 a OR (b AND mask 16)) AND mask 16 = b"
  proof (rule bit_word_eqI)
    fix n
    assume "n < LENGTH(32)"
    then show "bit ((push_bit 16 a OR (b AND mask 16)) AND mask 16) n = bit b n"
      using low_half_bits [OF assms(3,4), of n]
      by (cases "16 \<le> n") (auto simp add: bit_simps)
  qed
  show ?thesis
    by (simp add: pack_tuple_def unpack_tuple_def mask_0xffff high low)
qed

theorem unpack_pack_tuple_witness:
  "- 32768 \<le> sint (640 :: c_int) \<and> sint (640 :: c_int) \<le> 32767
   \<and> 0 \<le> sint (480 :: c_int) \<and> sint (480 :: c_int) \<le> 65535
   \<and> unpack_tuple (pack_tuple 640 480) = (640, 480)"
  using unpack_pack_tuple [of 640 480] by simp

text \<open>
  C5 as stated fails on either reading of "16-bit range" for both components: 40000 fits
  16 bits unsigned and comes back from the high half as \<open>- 25536\<close>; \<open>- 1\<close> fits 16 bits
  signed and comes back from the low half as 65535.
\<close>

theorem unpack_pack_tuple_counterexample:
  "unpack_tuple (pack_tuple 40000 0) = (- 25536, 0)
   \<and> unpack_tuple (pack_tuple 40000 0) \<noteq> (40000, 0)
   \<and> unpack_tuple (pack_tuple 0 (- 1)) = (0, 65535)
   \<and> unpack_tuple (pack_tuple 0 (- 1)) \<noteq> (0, - 1)"
  by (simp add: pack_tuple_def unpack_tuple_def)

subsection \<open>Format mapper and plane layout\<close>

text \<open>
  C8, as the code has it. The mapper is a total function, and it answers a format other
  than \<^verbatim>\<open>VIDEO_FORMAT_NONE\<close> exactly on six pixel format codes: the three packed 4:2:2
  codes YVYU, YUYV and UYVY, the semi-planar NV12 and the planar YUV420 and YVU420.
\<close>

theorem v4l2_to_obs_video_format_recognized:
  "v4l2_to_obs_video_format f \<noteq> VIDEO_FORMAT_NONE \<longleftrightarrow>
     f \<in> {ucast V4L2_PIX_FMT_YVYU, ucast V4L2_PIX_FMT_YUYV, ucast V4L2_PIX_FMT_UYVY,
           ucast V4L2_PIX_FMT_NV12, ucast V4L2_PIX_FMT_YUV420, ucast V4L2_PIX_FMT_YVU420}"
  by (simp add: v4l2_to_obs_video_format_def)

text \<open>
  C8 as stated counts two packed 4:2:2 codes in the recognized set. Three distinct packed
  4:2:2 codes are mapped, each to a format of its own, so whichever two are meant the
  third is a code outside the stated set that is not mapped to \<^verbatim>\<open>VIDEO_FORMAT_NONE\<close>.
\<close>

theorem v4l2_to_obs_video_format_counterexample:
  "v4l2_to_obs_video_format (ucast V4L2_PIX_FMT_YVYU) = VIDEO_FORMAT_YVYU
   \<and> v4l2_to_obs_video_format (ucast V4L2_PIX_FMT_YUYV) = VIDEO_FORMAT_YUY2
   \<and> v4l2_to_obs_video_format (ucast V4L2_PIX_FMT_UYVY) = VIDEO_FORMAT_UYVY
   \<and> distinct [V4L2_PIX_FMT_YVYU, V4L2_PIX_FMT_YUYV, V4L2_PIX_FMT_UYVY]"
  by (simp add: v4l2_to_obs_video_format_def pixfmt_defs)

lemma pixfmt_values:
  "(ucast V4L2_PIX_FMT_YVYU :: 64 word) = 1431918169"
  "(ucast V4L2_PIX_FMT_YUYV :: 64 word) = 1448695129"
  "(ucast V4L2_PIX_FMT_UYVY :: 64 word) = 1498831189"
  "(ucast V4L2_PIX_FMT_NV12 :: 64 word) = 842094158"
  "(ucast V4L2_PIX_FMT_YUV420 :: 64 word) = 842093913"
  "(ucast V4L2_PIX_FMT_YVU420 :: 64 word) = 842094169"
  by (simp_all add: pixfmt_defs)

lemma planes_update:
  "[x0, x1, x2, x3, x4, x5, x6, x7][0 := a] = [a, x1, x2, x3, x4, x5, x6, x7]"
  "[x0, x1, x2, x3, x4, x5, x6, x7][1 := b] = [x0, b, x2, x3, x4, x5, x6, x7]"
  "[x0, x1, x2, x3, x4, x5, x6, x7][2 := c] = [x0, x1, c, x3, x4, x5, x6, x7]"
  by (simp_all add: numeral_2_eq_2)

text \<open>
  C7. For a source negotiated to 640 by 480 with 640 bytes per line, whatever its other
  fields: with YUV420 the frame has line sizes 640, 320, 320 and plane offsets 0,
  640 * 480 = 307200 and 640 * 480 * 5 / 4 = 384000; with YVU420 the line sizes are the
  same and the two chroma offsets are exchanged. The remaining planes are unused (zero).
\<close>

theorem v4l2_prep_obs_frame_420:
  "v4l2_prep_obs_frame
     (d\<lparr>pixfmt := ucast V4L2_PIX_FMT_YUV420, width := 640, height := 480, linesize := 640\<rparr>)
   = (\<lparr>fr_data = [0, 0, 0, 0, 0, 0, 0, 0], fr_linesize = [640, 320, 320, 0, 0, 0, 0, 0],
        fr_width = 640, fr_height = 480, fr_timestamp = 0, fr_format = VIDEO_FORMAT_I420\<rparr>,
      [0, 307200, 384000, 0, 0, 0, 0, 0])
   \<and> v4l2_prep_obs_frame
     (d\<lparr>pixfmt := ucast V4L2_PIX_FMT_YVU420, width := 640, height := 480, linesize := 640\<rparr>)
   = (\<lparr>fr_data = [0, 0, 0, 0, 0, 0, 0, 0], fr_linesize = [640, 320, 320, 0, 0, 0, 0, 0],
        fr_width = 640, fr_height = 480, fr_timestamp = 0, fr_format = VIDEO_FORMAT_I420\<rparr>,
      [0, 384000, 307200, 0, 0, 0, 0, 0])"
  by (simp add: v4l2_prep_obs_frame_def v4l2_to_obs_video_format_def pixfmt_values
      replicate_planes planes_update)

subsection \<open>Capture thread\<close>

lemmas thread_defs = v4l2_thread_def v4l2_start_capture_def v4l2_stop_capture_def
  v4l2_prep_obs_frame_def v4l2_to_obs_video_format_def timeval2ns_def
  round_continues_def round_in_bounds_def

lemmas thread_scenario_defs = refusing_def session0_def timeout_round_def frame_round_def
  stop_round_def camera_def

lemma start_capture_loop_trace:
  "start_capture_loop k fd is tr = (r, tr') \<Longrightarrow>
     filter is_streamoff tr' = filter is_streamoff tr
     \<and> filter is_output_video tr' = filter is_output_video tr
     \<and> filter is_select tr' = filter is_select tr"
  by (induction "is" arbitrary: tr) (auto simp add: Let_def split: if_splits)

lemma v4l2_start_capture_trace:
  "v4l2_start_capture k d tr = (r, tr') \<Longrightarrow>
     filter is_streamoff tr' = filter is_streamoff tr
     \<and> filter is_output_video tr' = filter is_output_video tr
     \<and> filter is_select tr' = filter is_select tr"
  by (auto simp add: v4l2_start_capture_def Let_def split: prod.splits if_splits
      dest!: start_capture_loop_trace)

lemma v4l2_stop_capture_trace:
  "snd (v4l2_stop_capture k d tr) = tr @ Ioctl (dev d) VIDIOC_STREAMOFF #
     (if k_streamoff k then [] else [Blog LOG_ERROR ''unable to stop stream''])"
  by (simp add: v4l2_stop_capture_def Let_def)

lemma capture_loop_signalled: "capture_loop out offs rs True d tr = Returned (d, tr)"
  by (cases rs) simp_all

lemma capture_loop_returned:
  "capture_loop out offs rs ev d tr = Returned (d', tr') \<Longrightarrow>
     dev d' = dev d \<and> filter is_streamoff tr' = filter is_streamoff tr"
proof (induction rs arbitrary: ev d tr)
  case Nil
  then show ?case by (simp split: if_splits)
next
  case (Cons r rs)
  show ?case
  proof (cases ev)
    case True
    with Cons.prems show ?thesis by simp
  next
    case False
    with Cons.prems show ?thesis
      by (auto simp add: Let_def split: select_result.splits dqbuf_result.splits if_splits
          dest!: Cons.IH)
  qed
qed


text \<open>
  C9. Whenever the thread returns, its calls contain exactly one \<^verbatim>\<open>VIDIOC_STREAMOFF\<close>,
  on the device of the source. When start-up fails (a buffer cannot be queued or
  \<^verbatim>\<open>VIDIOC_STREAMON\<close> is refused) the thread does return, with that one stream-off and
  without any frame delivered.
\<close>

theorem thread_streamoff_once:
  "(v4l2_thread k rounds ev d = Returned (d', tr) \<longrightarrow>
      filter is_streamoff tr = [Ioctl (dev d) VIDIOC_STREAMOFF])
   \<and> (fst (v4l2_start_capture k d []) < 0 \<longrightarrow>
        (\<exists>tr. v4l2_thread k rounds ev d = Returned (d, tr)
              \<and> filter is_streamoff tr = [Ioctl (dev d) VIDIOC_STREAMOFF]
              \<and> filter is_output_video tr = []))"
proof (intro conjI impI)
  assume ret: "v4l2_thread k rounds ev d = Returned (d', tr)"
  obtain r tr0 where start: "v4l2_start_capture k d [] = (r, tr0)"
    by (cases "v4l2_start_capture k d []")
  from v4l2_start_capture_trace [OF start]
  have tr0: "filter is_streamoff tr0 = []" by simp
  show "filter is_streamoff tr = [Ioctl (dev d) VIDIOC_STREAMOFF]"
  proof (cases "r < 0")
    case True
    with ret start have "tr = snd (v4l2_stop_capture k d tr0)"
      by (auto simp add: v4l2_thread_def)
    with tr0 show ?thesis
      by (simp add: v4l2_stop_capture_trace)
  next
    case False
    obtain out offs where prep: "v4l2_prep_obs_frame (d\<lparr>frames := 0\<rparr>) = (out, offs)"
      by (cases "v4l2_prep_obs_frame (d\<lparr>frames := 0\<rparr>)")
    from ret start False prep obtain d2 tr2 where
      loop: "capture_loop out offs rounds ev (d\<lparr>frames := 0\<rparr>) tr0 = Returned (d2, tr2)"
      and tr: "tr = snd (v4l2_stop_capture k d2
                 (tr2 @ [Blog LOG_INFO ''Stopped capture after %lu frames'']))"
      by (auto simp add: v4l2_thread_def Let_def split: outcome.splits)
    from capture_loop_returned [OF loop] tr0
    have "dev d2 = dev d" "filter is_streamoff tr2 = []" by simp_all
    with tr show ?thesis
      by (simp add: v4l2_stop_capture_trace)
  qed
next
  assume fail: "fst (v4l2_start_capture k d []) < 0"
  obtain r tr0 where start: "v4l2_start_capture k d [] = (r, tr0)"
    by (cases "v4l2_start_capture k d []")
  from v4l2_start_capture_trace [OF start]
  have tr0: "filter is_streamoff tr0 = []" "filter is_output_video tr0 = []" by simp_all
  from fail start have "v4l2_thread k rounds ev d = Returned (d, snd (v4l2_stop_capture k d tr0))"
    by (simp add: v4l2_thread_def)
  with tr0 show "\<exists>tr. v4l2_thread k rounds ev d = Returned (d, tr)
              \<and> filter is_streamoff tr = [Ioctl (dev d) VIDIOC_STREAMOFF]
              \<and> filter is_output_video tr = []"
    by (simp add: v4l2_stop_capture_trace)
qed

theorem thread_streamoff_once_witness:
  "v4l2_thread camera [] True session0 =
     Returned (session0, [Ioctl 5 (VIDIOC_QBUF 0), Ioctl 5 (VIDIOC_QBUF 1),
       Ioctl 5 VIDIOC_STREAMON, Blog LOG_INFO ''Stopped capture after %lu frames'',
       Ioctl 5 VIDIOC_STREAMOFF])
   \<and> filter is_streamoff [Ioctl 5 (VIDIOC_QBUF 0), Ioctl 5 (VIDIOC_QBUF 1),
       Ioctl 5 VIDIOC_STREAMON, Blog LOG_INFO ''Stopped capture after %lu frames'',
       Ioctl 5 VIDIOC_STREAMOFF] = [Ioctl (dev session0) VIDIOC_STREAMOFF]
   \<and> fst (v4l2_start_capture refusing session0 []) < 0
   \<and> (\<exists>tr. v4l2_thread refusing [frame_round] False session0 = Returned (session0, tr)
          \<and> filter is_streamoff tr = [Ioctl (dev session0) VIDIOC_STREAMOFF]
          \<and> filter is_output_video tr = [])"
  using thread_streamoff_once [of camera "[]" True session0 session0
      "[Ioctl 5 (VIDIOC_QBUF 0), Ioctl 5 (VIDIOC_QBUF 1),
       Ioctl 5 VIDIOC_STREAMON, Blog LOG_INFO ''Stopped capture after %lu frames'',
       Ioctl 5 VIDIOC_STREAMOFF]"]
    thread_streamoff_once [of refusing "[frame_round]" False session0]
  by (simp add: thread_defs thread_scenario_defs upt_0_2 pixfmt_values)

lemma round_continues_buf: "buf d1 = buf d \<Longrightarrow> round_continues d1 x = round_continues d x"
  by (simp add: round_continues_def split: select_result.splits dqbuf_result.splits)

lemma round_in_bounds_buf: "buf d1 = buf d \<Longrightarrow> round_in_bounds d1 x = round_in_bounds d x"
  by (simp add: round_in_bounds_def split: select_result.splits dqbuf_result.splits)

lemma capture_loop_rounds_before:
  "\<forall>x\<in>set pre. \<not> r_signal x \<and> round_continues d x \<Longrightarrow>
   \<exists>d' tr'. capture_loop out offs (pre @ rest) False d tr = capture_loop out offs rest False d' tr'
     \<and> buf d' = buf d \<and> dev d' = dev d
     \<and> filter is_select tr' = filter is_select tr @ replicate (length pre) (Select (dev d + 1) 1 0)
     \<and> filter is_streamoff tr' = filter is_streamoff tr"
proof (induction pre arbitrary: d tr)
  case Nil
  show ?case by auto
next
  case (Cons x pre)
  from Cons.prems have quiet: "\<not> r_signal x" and cont: "round_continues d x"
    by simp_all
  have rest: "\<forall>y\<in>set pre. \<not> r_signal y \<and> round_continues d1 y" if "buf d1 = buf d" for d1
    using Cons.prems by (simp add: round_continues_buf [OF that])
  have step: "\<exists>d1 tr1. capture_loop out offs ((x # pre) @ rest) False d tr
        = capture_loop out offs (pre @ rest) False d1 tr1
      \<and> buf d1 = buf d \<and> dev d1 = dev d
      \<and> filter is_select tr1 = filter is_select tr @ [Select (dev d + 1) 1 0]
      \<and> filter is_streamoff tr1 = filter is_streamoff tr"
    using quiet cont
    apply (auto simp add: round_continues_def Let_def
        split: select_result.splits dqbuf_result.splits)
       apply (rule exI, rule exI, rule conjI, rule refl, simp)+
    done
  then obtain d1 tr1 where
    eq1: "capture_loop out offs ((x # pre) @ rest) False d tr
        = capture_loop out offs (pre @ rest) False d1 tr1"
    and d1: "buf d1 = buf d" "dev d1 = dev d"
    and tr1: "filter is_select tr1 = filter is_select tr @ [Select (dev d + 1) 1 0]"
      "filter is_streamoff tr1 = filter is_streamoff tr"
    by blast
  from Cons.IH [OF rest [OF d1(1)], of tr1] obtain d' tr' where
    eq2: "capture_loop out offs (pre @ rest) False d1 tr1 = capture_loop out offs rest False d' tr'"
    and d': "buf d' = buf d1" "dev d' = dev d1"
    and tr': "filter is_select tr' = filter is_select tr1 @ replicate (length pre) (Select (dev d1 + 1) 1 0)"
      "filter is_streamoff tr' = filter is_streamoff tr1"
    by blast
  have run: "capture_loop out offs ((x # pre) @ rest) False d tr
      = capture_loop out offs rest False d' tr'"
    using eq1 eq2 by (rule trans)
  have sel: "filter is_select tr'
      = filter is_select tr @ replicate (length (x # pre)) (Select (dev d + 1) 1 0)"
    by (simp add: tr'(1) tr1(1) d1(2))
  have "buf d' = buf d" "dev d' = dev d" "filter is_streamoff tr' = filter is_streamoff tr"
    by (simp_all add: d' d1 tr'(2) tr1(2))
  with run sel show ?case by blast
qed

lemma capture_loop_signalled_round:
  "r_signal r \<Longrightarrow> round_in_bounds d r \<Longrightarrow>
   \<exists>d' tr'. capture_loop out offs (r # post) False d tr = Returned (d', tr')
     \<and> dev d' = dev d
     \<and> filter is_select tr' = filter is_select tr @ [Select (dev d + 1) 1 0]
     \<and> filter is_streamoff tr' = filter is_streamoff tr"
  by (auto simp add: round_in_bounds_def Let_def capture_loop_signalled
      split: select_result.splits dqbuf_result.splits)

text \<open>
  C4. The thread has started streaming; the rounds \<open>pre\<close> pass without the stop event and
  without leaving the loop, and the event is signalled while the thread waits in the
  \<^verbatim>\<open>select\<close> of round \<open>r\<close>. Then, whatever that \<^verbatim>\<open>select\<close> returns and whatever rounds \<open>post\<close>
  the system would still offer, the thread returns; it has called \<^verbatim>\<open>select\<close> once per
  round of \<open>pre\<close> and once for \<open>r\<close>, never again, each time with the timeout of one second
  and zero microseconds; it has issued \<^verbatim>\<open>VIDIOC_STREAMOFF\<close> exactly once; and no frame is
  delivered from that call on. Time is counted in waits: the wait in which the signal
  arrives is the last one, and \<^verbatim>\<open>select\<close> bounds it by its timeout.
\<close>

theorem thread_stops_after_signalled_wait:
  assumes start: "fst (v4l2_start_capture k d []) = 0"
    and before: "\<forall>x\<in>set pre. \<not> r_signal x \<and> round_continues d x"
    and signal: "r_signal r"
    and bounds: "round_in_bounds d r"
  shows "\<exists>d' tr. v4l2_thread k (pre @ r # post) False d = Returned (d', tr)
           \<and> filter is_select tr = replicate (Suc (length pre)) (Select (dev d + 1) 1 0)
           \<and> filter is_streamoff tr = [Ioctl (dev d) VIDIOC_STREAMOFF]
           \<and> filter is_output_video (dropWhile (\<lambda>e. \<not> is_streamoff e) tr) = []"
proof -
  obtain r0 tr0 where st: "v4l2_start_capture k d [] = (r0, tr0)"
    by (cases "v4l2_start_capture k d []")
  with start have r0: "r0 = 0" by simp
  from v4l2_start_capture_trace [OF st]
  have tr0: "filter is_streamoff tr0 = []" "filter is_select tr0 = []" by simp_all
  obtain out offs where prep: "v4l2_prep_obs_frame (d\<lparr>frames := 0\<rparr>) = (out, offs)"
    by (cases "v4l2_prep_obs_frame (d\<lparr>frames := 0\<rparr>)")
  let ?d0 = "d\<lparr>frames := 0\<rparr>"
  have "buf ?d0 = buf d" by simp
  with before have before0: "\<forall>x\<in>set pre. \<not> r_signal x \<and> round_continues ?d0 x"
    by (simp add: round_continues_buf [of ?d0 d])
  from capture_loop_rounds_before [OF before0, of out offs "r # post" tr0]
  obtain d1 tr1 where
    eq1: "capture_loop out offs (pre @ r # post) False ?d0 tr0
        = capture_loop out offs (r # post) False d1 tr1"
    and d1: "buf d1 = buf d" "dev d1 = dev d"
    and tr1: "filter is_select tr1 = replicate (length pre) (Select (dev d + 1) 1 0)"
      "filter is_streamoff tr1 = []"
    using tr0 by auto
  from bounds have bounds1: "round_in_bounds d1 r"
    by (simp add: round_in_bounds_buf [OF d1(1)])
  from capture_loop_signalled_round [OF signal bounds1, of out offs post tr1]
  obtain d2 tr2 where
    eq2: "capture_loop out offs (r # post) False d1 tr1 = Returned (d2, tr2)"
    and d2: "dev d2 = dev d"
    and tr2: "filter is_select tr2 = replicate (Suc (length pre)) (Select (dev d + 1) 1 0)"
      "filter is_streamoff tr2 = []"
    using d1 tr1 by (auto simp add: replicate_append_same)
  let ?tr3 = "tr2 @ [Blog LOG_INFO ''Stopped capture after %lu frames'']"
  have quiet: "\<And>e. e \<in> set ?tr3 \<Longrightarrow> \<not> is_streamoff e"
    using tr2(2) by (auto simp add: filter_empty_conv)
  have thread: "v4l2_thread k (pre @ r # post) False d
      = Returned (d2, snd (v4l2_stop_capture k d2 ?tr3))"
    using st r0 prep eq1 eq2 by (simp add: v4l2_thread_def Let_def)
  have after: "dropWhile (\<lambda>e. \<not> is_streamoff e) (snd (v4l2_stop_capture k d2 ?tr3))
      = Ioctl (dev d) VIDIOC_STREAMOFF #
          (if k_streamoff k then [] else [Blog LOG_ERROR ''unable to stop stream''])"
  proof -
    have drop: "dropWhile (\<lambda>e. \<not> is_streamoff e) (?tr3 @ ys)
        = dropWhile (\<lambda>e. \<not> is_streamoff e) ys" for ys
      by (rule dropWhile_append2) (use quiet in blast)
    show ?thesis
      unfolding v4l2_stop_capture_trace drop by (simp add: d2)
  qed
  have sel: "filter is_select (snd (v4l2_stop_capture k d2 ?tr3))
      = replicate (Suc (length pre)) (Select (dev d + 1) 1 0)"
    by (simp add: v4l2_stop_capture_trace tr2(1))
  have off: "filter is_streamoff (snd (v4l2_stop_capture k d2 ?tr3))
      = [Ioctl (dev d) VIDIOC_STREAMOFF]"
    by (simp add: v4l2_stop_capture_trace tr2(2) d2)
  have out: "filter is_output_video
      (dropWhile (\<lambda>e. \<not> is_streamoff e) (snd (v4l2_stop_capture k d2 ?tr3))) = []"
    by (simp add: after)
  from thread sel off out show ?thesis by blast
qed


theorem thread_stops_after_signalled_wait_witness:
  "fst (v4l2_start_capture camera session0 []) = 0
   \<and> \<not> r_signal timeout_round \<and> round_continues session0 timeout_round
   \<and> \<not> r_signal frame_round \<and> round_continues session0 frame_round
   \<and> r_signal stop_round \<and> round_in_bounds session0 stop_round
   \<and> (\<exists>d' tr. v4l2_thread camera ([timeout_round, frame_round] @ stop_round # [frame_round])
                  False session0 = Returned (d', tr)
          \<and> filter is_select tr = replicate (Suc (length [timeout_round, frame_round])) (Select (dev session0 + 1) 1 0)
          \<and> filter is_streamoff tr = [Ioctl (dev session0) VIDIOC_STREAMOFF]
          \<and> filter is_output_video (dropWhile (\<lambda>e. \<not> is_streamoff e) tr) = [])"
proof -
  have a: "fst (v4l2_start_capture camera session0 []) = 0"
    by (simp add: thread_defs thread_scenario_defs upt_0_2)
  have b: "\<forall>x\<in>set [timeout_round, frame_round]. \<not> r_signal x \<and> round_continues session0 x"
    by (simp add: thread_defs thread_scenario_defs)
  have c: "r_signal stop_round" "round_in_bounds session0 stop_round"
    by (simp_all add: thread_defs thread_scenario_defs)
  from thread_stops_after_signalled_wait [OF a b c, of "[frame_round]"] a b c
  show ?thesis by simp
qed

subsection \<open>Buffer pool and failed initialisation\<close>

lemma mapped_emit [simp]: "mapped (emit e w) = mapped w"
  by (simp add: emit_def)

lemma trace_emit [simp]: "trace (emit e w) = trace w @ [e]"
  by (simp add: emit_def)

lemma destroy_mmap_loop_mapped:
  "mapped (destroy_mmap_loop bs w) = mapped w - (buf_start ` set bs - {MAP_FAILED})"
  by (induction bs arbitrary: w) auto

text \<open>One step of the mapping loop that goes on to the next index.\<close>

lemma create_mmap_loop_step:
  assumes "k_querybuf k i = Some (len, off)" and "k_mmap k i \<noteq> MAP_FAILED"
  shows "create_mmap_loop k (i # js) d w =
     create_mmap_loop k js
       (d\<lparr>buf := (buf d)[i := \<lparr>buf_length = len, buf_start = k_mmap k i\<rparr>]\<rparr>)
       ((emit (V4l2Mmap len off) (emit (Ioctl (dev d) (VIDIOC_QUERYBUF i)) w))
          \<lparr>mapped := insert (k_mmap k i) (mapped w)\<rparr>)"
  using assms by (simp add: Let_def)

lemma create_mmap_loop_stop:
  assumes "k_querybuf k i = None \<or> k_mmap k i = MAP_FAILED"
  shows "\<exists>d' w'. create_mmap_loop k (i # js) d w = (- 1, d', w')
     \<and> mapped w' = mapped w \<and> length (buf d') = length (buf d)
     \<and> buf_count d' = buf_count d \<and> dev d' = dev d
     \<and> (\<forall>j. j \<noteq> i \<longrightarrow> buf d' ! j = buf d ! j)
     \<and> buf_start ` set (buf d') \<subseteq> buf_start ` set (buf d) \<union> {k_mmap k i}"
proof (cases "k_querybuf k i")
  case None
  then show ?thesis by (auto simp add: Let_def)
next
  case (Some lo)
  obtain len off where "lo = (len, off)" by (cases lo)
  with Some assms have "k_mmap k i = MAP_FAILED" "k_querybuf k i = Some (len, off)" by simp_all
  moreover have "buf_start ` set ((buf d)[i := \<lparr>buf_length = len, buf_start = MAP_FAILED\<rparr>])
      \<subseteq> buf_start ` set (buf d) \<union> {MAP_FAILED}"
    using set_update_subset_insert [of "buf d" i] by fastforce
  ultimately show ?thesis by (simp add: Let_def)
qed

lemma create_mmap_loop_frame:
  "create_mmap_loop k js d w = (r, d', w') \<Longrightarrow>
     length (buf d') = length (buf d) \<and> buf_count d' = buf_count d \<and> dev d' = dev d
     \<and> mapped w \<subseteq> mapped w' \<and> (\<forall>i. i \<notin> set js \<longrightarrow> buf d' ! i = buf d ! i)"
proof (induction js arbitrary: d w)
  case Nil
  then show ?case by simp
next
  case (Cons i js)
  show ?case
  proof (cases "k_querybuf k i = None \<or> k_mmap k i = MAP_FAILED")
    case True
    from create_mmap_loop_stop [OF True, of js d w] Cons.prems show ?thesis
      by auto
  next
    case False
    then obtain len off where q: "k_querybuf k i = Some (len, off)" and p: "k_mmap k i \<noteq> MAP_FAILED"
      by auto
    from Cons.prems have rec: "create_mmap_loop k js
       (d\<lparr>buf := (buf d)[i := \<lparr>buf_length = len, buf_start = k_mmap k i\<rparr>]\<rparr>)
       ((emit (V4l2Mmap len off) (emit (Ioctl (dev d) (VIDIOC_QUERYBUF i)) w))
          \<lparr>mapped := insert (k_mmap k i) (mapped w)\<rparr>) = (r, d', w')"
      by (simp only: create_mmap_loop_step [OF q p])
    from Cons.IH [OF rec] show ?thesis
      by auto
  qed
qed

lemma create_mmap_loop_starts:
  "create_mmap_loop k js d w = (r, d', w') \<Longrightarrow>
     buf_start ` set (buf d') \<subseteq> buf_start ` set (buf d) \<union> k_mmap k ` set js"
proof (induction js arbitrary: d w)
  case Nil
  then show ?case by simp
next
  case (Cons i js)
  show ?case
  proof (cases "k_querybuf k i = None \<or> k_mmap k i = MAP_FAILED")
    case True
    from create_mmap_loop_stop [OF True, of js d w] Cons.prems show ?thesis
      by auto
  next
    case False
    then obtain len off where q: "k_querybuf k i = Some (len, off)" and p: "k_mmap k i \<noteq> MAP_FAILED"
      by auto
    let ?d1 = "d\<lparr>buf := (buf d)[i := \<lparr>buf_length = len, buf_start = k_mmap k i\<rparr>]\<rparr>"
    from Cons.prems have rec: "create_mmap_loop k js ?d1
       ((emit (V4l2Mmap len off) (emit (Ioctl (dev d) (VIDIOC_QUERYBUF i)) w))
          \<lparr>mapped := insert (k_mmap k i) (mapped w)\<rparr>) = (r, d', w')"
      by (simp only: create_mmap_loop_step [OF q p])
    have "buf_start ` set (buf ?d1) \<subseteq> buf_start ` set (buf d) \<union> {k_mmap k i}"
      using set_update_subset_insert [of "buf d" i] by fastforce
    with Cons.IH [OF rec] show ?thesis
      by auto
  qed
qed

lemma create_mmap_loop_recorded:
  "create_mmap_loop k js d w = (r, d', w') \<Longrightarrow> distinct js \<Longrightarrow>
   \<forall>j\<in>set js. j < length (buf d) \<Longrightarrow>
     mapped w' \<subseteq> mapped w \<union> (buf_start ` set (buf d') - {MAP_FAILED})"
proof (induction js arbitrary: d w)
  case Nil
  then show ?case by simp
next
  case (Cons i js)
  show ?case
  proof (cases "k_querybuf k i = None \<or> k_mmap k i = MAP_FAILED")
    case True
    from create_mmap_loop_stop [OF True, of js d w] Cons.prems(1) show ?thesis
      by auto
  next
    case False
    then obtain len off where q: "k_querybuf k i = Some (len, off)" and p: "k_mmap k i \<noteq> MAP_FAILED"
      by auto
    let ?d1 = "d\<lparr>buf := (buf d)[i := \<lparr>buf_length = len, buf_start = k_mmap k i\<rparr>]\<rparr>"
    let ?w1 = "(emit (V4l2Mmap len off) (emit (Ioctl (dev d) (VIDIOC_QUERYBUF i)) w))
          \<lparr>mapped := insert (k_mmap k i) (mapped w)\<rparr>"
    from Cons.prems(1) have rec: "create_mmap_loop k js ?d1 ?w1 = (r, d', w')"
      by (simp only: create_mmap_loop_step [OF q p])
    from Cons.prems have i: "i \<notin> set js" "i < length (buf d)" and js: "distinct js"
      "\<forall>j\<in>set js. j < length (buf ?d1)"
      by simp_all
    from Cons.IH [OF rec js]
    have sub: "mapped w' \<subseteq> insert (k_mmap k i) (mapped w) \<union> (buf_start ` set (buf d') - {MAP_FAILED})"
      by simp
    from create_mmap_loop_frame [OF rec] i
    have "buf d' ! i = \<lparr>buf_length = len, buf_start = k_mmap k i\<rparr>" "i < length (buf d')"
      by simp_all
    then have "k_mmap k i \<in> buf_start ` set (buf d')"
      by (metis image_eqI nth_mem v4l2_buffer_data.select_convs(2))
    with sub p show ?thesis by auto
  qed
qed


lemma v4l2_terminate_result:
  "v4l2_terminate d w = (d', w') \<Longrightarrow>
     dev d' = - 1 \<and> buf_count d' = 0
     \<and> mapped w' = mapped w - (buf_start ` set (take (buf_count d) (buf d)) - {MAP_FAILED})
     \<and> thread d' = thread d \<and> event d' = event d \<and> set_device d' = set_device d
     \<and> set_pixfmt d' = set_pixfmt d \<and> set_res d' = set_res d \<and> set_fps d' = set_fps d"
  by (auto simp add: v4l2_terminate_def v4l2_destroy_mmap_def Let_def destroy_mmap_loop_mapped
      split: if_splits)

lemma v4l2_create_mmap_tracked:
  assumes run: "v4l2_create_mmap k d w = (r, d1, w1)"
    and empty: "buf_count d = 0"
    and null: "0 \<notin> mapped w"
    and fresh: "\<forall>j. k_mmap k j \<notin> mapped w"
  shows "mapped w1 - (buf_start ` set (take (buf_count d1) (buf d1)) - {MAP_FAILED}) = mapped w"
    and "dev d1 = dev d"
proof -
  have "mapped w1 - (buf_start ` set (take (buf_count d1) (buf d1)) - {MAP_FAILED}) = mapped w
      \<and> dev d1 = dev d"
  proof (cases "\<exists>n. k_reqbufs k = Some n \<and> 2 \<le> n")
    case False
    with run have "d1 = d" "mapped w1 = mapped w"
      by (auto simp add: v4l2_create_mmap_def Let_def split: option.splits if_splits)
    with empty show ?thesis by simp
  next
    case True
    then obtain n where n: "k_reqbufs k = Some n" "2 \<le> n" by blast
    let ?d0 = "d\<lparr>buf_count := n, buf := replicate n \<lparr>buf_length = 0, buf_start = 0\<rparr>\<rparr>"
    let ?w0 = "emit (Bzalloc n) (emit (Ioctl (dev d) (VIDIOC_REQBUFS 4)) w)"
    from run n have loop: "create_mmap_loop k [0..<n] ?d0 ?w0 = (r, d1, w1)"
      by (simp add: v4l2_create_mmap_def Let_def)
    from create_mmap_loop_frame [OF loop]
    have len: "length (buf d1) = n" "buf_count d1 = n" "dev d1 = dev d"
      and mono: "mapped w \<subseteq> mapped w1"
      by simp_all
    from create_mmap_loop_starts [OF loop]
    have starts: "buf_start ` set (buf d1) \<subseteq> {0} \<union> range (k_mmap k)"
      by auto
    from create_mmap_loop_recorded [OF loop]
    have rec: "mapped w1 \<subseteq> mapped w \<union> (buf_start ` set (buf d1) - {MAP_FAILED})"
      by simp
    from len have all: "take (buf_count d1) (buf d1) = buf d1" by simp
    from starts null fresh have apart: "buf_start ` set (buf d1) \<inter> mapped w = {}"
      by auto
    from mono rec apart
    have "mapped w1 - (buf_start ` set (buf d1) - {MAP_FAILED}) = mapped w"
      by blast
    with all len show ?thesis by simp
  qed
  then show "mapped w1 - (buf_start ` set (take (buf_count d1) (buf d1)) - {MAP_FAILED}) = mapped w"
    and "dev d1 = dev d" by simp_all
qed

lemma init_negotiate_frame:
  assumes "init_negotiate k d w = Inl (d', w') \<or> init_negotiate k d w = Inr (d', w')"
  shows "buf_count d' = buf_count d \<and> buf d' = buf d \<and> mapped w' = mapped w
     \<and> thread d' = thread d \<and> event d' = event d \<and> set_device d' = set_device d
     \<and> set_pixfmt d' = set_pixfmt d \<and> set_res d' = set_res d \<and> set_fps d' = set_fps d"
  using assms
  by (auto simp add: init_negotiate_def Let_def split: if_splits prod.splits option.splits)

lemma init_start_thread_frame:
  assumes "init_start_thread k d w = Inl (d', w') \<or> init_start_thread k d w = Inr (d', w')"
  shows "buf_count d' = buf_count d \<and> buf d' = buf d \<and> mapped w' = mapped w \<and> dev d' = dev d
     \<and> set_device d' = set_device d
     \<and> set_pixfmt d' = set_pixfmt d \<and> set_res d' = set_res d \<and> set_fps d' = set_fps d"
  using assms
  by (auto simp add: init_start_thread_def Let_def split: if_splits prod.splits option.splits)

lemma v4l2_init_body_failed:
  assumes run: "v4l2_init_body k d w = Inl (d1, w1)"
    and empty: "buf_count d = 0"
    and null: "0 \<notin> mapped w"
    and fresh: "\<forall>j. k_mmap k j \<notin> mapped w"
  shows "mapped w1 - (buf_start ` set (take (buf_count d1) (buf d1)) - {MAP_FAILED}) = mapped w"
proof (cases "init_negotiate k d w")
  case (Inl failed)
  with run have "init_negotiate k d w = Inl (d1, w1)"
    by (simp add: v4l2_init_body_def)
  with init_negotiate_frame [of k d w d1 w1] empty show ?thesis by simp
next
  case (Inr ok)
  obtain d2 w2 where ok: "ok = (d2, w2)" by (cases ok)
  obtain r d3 w3 where mm: "v4l2_create_mmap k d2 w2 = (r, d3, w3)"
    by (cases "v4l2_create_mmap k d2 w2")
  from init_negotiate_frame [of k d w d2 w2] Inr ok empty null fresh
  have pre: "buf_count d2 = 0" "0 \<notin> mapped w2" "\<forall>j. k_mmap k j \<notin> mapped w2" "mapped w2 = mapped w"
    by simp_all
  note tracked = v4l2_create_mmap_tracked(1) [OF mm pre(1,2,3)]
  show ?thesis
  proof (cases "r < 0")
    case True
    with run Inr ok mm have "d1 = d3" "mapped w1 = mapped w3"
      by (auto simp add: v4l2_init_body_def)
    with tracked pre(4) show ?thesis by simp
  next
    case False
    with run Inr ok mm have "init_start_thread k d3 w3 = Inl (d1, w1)"
      by (simp add: v4l2_init_body_def)
    with init_start_thread_frame [of k d3 w3 d1 w1] tracked pre(4) show ?thesis by simp
  qed
qed

lemma v4l2_init_failed:
  assumes failed: "isl (v4l2_init_body k d w)"
    and empty: "buf_count d = 0"
    and null: "0 \<notin> mapped w"
    and fresh: "\<forall>j. k_mmap k j \<notin> mapped w"
  shows "mapped (snd (v4l2_init k d w)) = mapped w"
    and "buf_count (fst (v4l2_init k d w)) = 0"
    and "dev (fst (v4l2_init k d w)) = - 1"
proof -
  from failed obtain d1 w1 where body: "v4l2_init_body k d w = Inl (d1, w1)"
    by (cases "v4l2_init_body k d w") auto
  let ?w = "emit (Blog LOG_ERROR ''Initialization failed'') w1"
  obtain d2 w2 where t: "v4l2_terminate d1 ?w = (d2, w2)"
    by (cases "v4l2_terminate d1 ?w")
  from body t have init: "v4l2_init k d w = (d2, w2)"
    by (simp add: v4l2_init_def)
  from v4l2_terminate_result [OF t] v4l2_init_body_failed [OF body empty null fresh] init
  show "mapped (snd (v4l2_init k d w)) = mapped w"
    and "buf_count (fst (v4l2_init k d w)) = 0"
    and "dev (fst (v4l2_init k d w)) = - 1"
    by simp_all
qed


lemma create_mmap_loop_prefix:
  "\<forall>j\<in>set pre. k_querybuf k j \<noteq> None \<and> k_mmap k j \<noteq> MAP_FAILED \<Longrightarrow>
   \<exists>d' w'. create_mmap_loop k (pre @ rest) d w = create_mmap_loop k rest d' w'
     \<and> mapped w' = mapped w \<union> k_mmap k ` set pre \<and> buf_count d' = buf_count d"
proof (induction pre arbitrary: d w)
  case Nil
  show ?case by auto
next
  case (Cons i pre)
  from Cons.prems obtain len off where q: "k_querybuf k i = Some (len, off)"
    and p: "k_mmap k i \<noteq> MAP_FAILED" by auto
  let ?d1 = "d\<lparr>buf := (buf d)[i := \<lparr>buf_length = len, buf_start = k_mmap k i\<rparr>]\<rparr>"
  let ?w1 = "(emit (V4l2Mmap len off) (emit (Ioctl (dev d) (VIDIOC_QUERYBUF i)) w))
          \<lparr>mapped := insert (k_mmap k i) (mapped w)\<rparr>"
  from Cons.prems have rest: "\<forall>j\<in>set pre. k_querybuf k j \<noteq> None \<and> k_mmap k j \<noteq> MAP_FAILED"
    by simp
  from Cons.IH [OF rest, of ?d1 ?w1] obtain d' w' where
    run: "create_mmap_loop k (pre @ rest) ?d1 ?w1 = create_mmap_loop k rest d' w'"
    and m: "mapped w' = mapped ?w1 \<union> k_mmap k ` set pre" and c: "buf_count d' = buf_count ?d1"
    by blast
  have "create_mmap_loop k ((i # pre) @ rest) d w = create_mmap_loop k rest d' w'"
    using run by (simp only: append_Cons create_mmap_loop_step [OF q p])
  moreover have "mapped w' = mapped w \<union> k_mmap k ` set (i # pre)"
    using m by auto
  moreover have "buf_count d' = buf_count d"
    using c by simp
  ultimately show ?case by blast
qed

lemma v4l2_create_mmap_fails_at:
  assumes granted: "k_reqbufs k = Some n" "2 \<le> n"
    and at: "i < n" "k_querybuf k i = None \<or> k_mmap k i = MAP_FAILED"
    and before: "\<forall>j<i. k_querybuf k j \<noteq> None \<and> k_mmap k j \<noteq> MAP_FAILED"
  shows "\<exists>d1 w1. v4l2_create_mmap k d w = (- 1, d1, w1)
     \<and> mapped w1 = mapped w \<union> k_mmap k ` {..<i} \<and> buf_count d1 = n"
proof -
  let ?d0 = "d\<lparr>buf_count := n, buf := replicate n \<lparr>buf_length = 0, buf_start = 0\<rparr>\<rparr>"
  let ?w0 = "emit (Bzalloc n) (emit (Ioctl (dev d) (VIDIOC_REQBUFS 4)) w)"
  have "[0..<n] = [0..<i] @ [i..<n]"
    using at(1) upt_add_eq_append [of 0 i "n - i"] by simp
  then have split: "[0..<n] = [0..<i] @ i # [Suc i..<n]"
    using at(1) by (simp add: upt_conv_Cons)
  from before have "\<forall>j\<in>set [0..<i]. k_querybuf k j \<noteq> None \<and> k_mmap k j \<noteq> MAP_FAILED"
    by simp
  from create_mmap_loop_prefix [OF this, of "i # [Suc i..<n]" ?d0 ?w0] obtain d' w' where
    run: "create_mmap_loop k [0..<n] ?d0 ?w0 = create_mmap_loop k (i # [Suc i..<n]) d' w'"
    and m: "mapped w' = mapped w \<union> k_mmap k ` {..<i}" and c: "buf_count d' = n"
    by (auto simp add: split lessThan_atLeast0)
  from create_mmap_loop_stop [OF at(2), of "[Suc i..<n]" d' w'] obtain d1 w1 where
    "create_mmap_loop k (i # [Suc i..<n]) d' w' = (- 1, d1, w1)"
    "mapped w1 = mapped w'" "buf_count d1 = buf_count d'"
    by blast
  with run m c granted show ?thesis
    by (simp add: v4l2_create_mmap_def Let_def)
qed

lemma init_negotiate_succeeds:
  assumes "set_device d = Some path" "k_open k path \<noteq> - 1"
    and "\<forall>a b c. k_s_fmt k a b c \<noteq> None" "\<forall>a b. k_s_parm k a b"
  shows "\<exists>d1 w1. init_negotiate k d w = Inr (d1, w1)"
proof -
  obtain req_w req_h where res: "unpack_tuple (ucast (set_res d)) = (req_w, req_h)"
    by (cases "unpack_tuple (ucast (set_res d))")
  obtain fps_num fps_denom where fps: "unpack_tuple (ucast (set_fps d)) = (fps_num, fps_denom)"
    by (cases "unpack_tuple (ucast (set_fps d))")
  from assms(3) obtain got_w got_h got_f bpl where
    fmt: "k_s_fmt k req_w req_h (ucast (set_pixfmt d)) = Some (got_w, got_h, got_f, bpl)"
    by (metis option.exhaust prod_cases4)
  from assms(4) have parm: "k_s_parm k fps_num fps_denom" by simp
  show ?thesis
    using assms(1,2) res fps fmt parm
    by (simp add: init_negotiate_def Let_def)
qed

lemma upt_0_4: "[0..<4] = [0, 1, 2, 3]"
  by (simp add: numeral_eq_Suc)

lemma replicate_4: "replicate 4 x = [x, x, x, x]"
  by (simp add: numeral_eq_Suc)


text \<open>
  C1 as stated fails: on the camera that grants four buffers and cannot map buffer
  index 2, \<^verbatim>\<open>v4l2_create_mmap\<close> returns \<open>- 1\<close> with buffers 0 and 1 still mapped. The
  function has no unmapping of its own on its two \<^verbatim>\<open>return -1\<close> inside the loop.
\<close>

theorem v4l2_create_mmap_counterexample:
  "fst (v4l2_create_mmap faulty (configured\<lparr>dev := 5\<rparr>) world0) = - 1
   \<and> mapped (snd (snd (v4l2_create_mmap faulty (configured\<lparr>dev := 5\<rparr>) world0)))
       = {0x10000, 0x20000}
   \<and> mapped (snd (snd (v4l2_create_mmap faulty (configured\<lparr>dev := 5\<rparr>) world0))) \<noteq> {}"
  by (simp add: v4l2_create_mmap_def faulty_def configured_def scenario_defs emit_def
      MAP_FAILED_def Let_def upt_0_4 replicate_4 insert_commute)

text \<open>
  C1, as the code has it. When querying or mapping buffer \<open>i\<close> fails after buffers
  \<open>0..i-1\<close> were mapped, \<^verbatim>\<open>v4l2_create_mmap\<close> returns \<open>- 1\<close> from any state with those
  \<open>i\<close> buffers mapped and \<^verbatim>\<open>buf_count\<close> set to the granted count. Its caller
  \<^verbatim>\<open>v4l2_init\<close> then takes \<^verbatim>\<open>goto fail\<close>, and the \<^verbatim>\<open>v4l2_terminate\<close> there unmaps them:
  when \<^verbatim>\<open>v4l2_init\<close> returns, exactly the regions mapped before the call are mapped,
  \<^verbatim>\<open>buf_count\<close> is zero and the device is closed. The hypotheses say that the device
  opens and accepts format and frame rate, that at least two buffers are granted, that
  the source holds no pool when \<^verbatim>\<open>v4l2_init\<close> is entered, and that \<^verbatim>\<open>v4l2_mmap\<close> returns
  neither the null pointer nor the address of a region that is still mapped.
\<close>

theorem failed_mapping_unmapped_by_init:
  assumes opened: "set_device d = Some path" "k_open k path \<noteq> - 1"
    and negotiated: "\<forall>a b c. k_s_fmt k a b c \<noteq> None" "\<forall>a b. k_s_parm k a b"
    and granted: "k_reqbufs k = Some n" "2 \<le> n"
    and at: "i < n" "k_querybuf k i = None \<or> k_mmap k i = MAP_FAILED"
    and before: "\<forall>j<i. k_querybuf k j \<noteq> None \<and> k_mmap k j \<noteq> MAP_FAILED"
    and state: "buf_count d = 0" "0 \<notin> mapped w" "\<forall>j. k_mmap k j \<notin> mapped w"
  shows "(\<forall>d0 w0. \<exists>d1 w1. v4l2_create_mmap k d0 w0 = (- 1, d1, w1)
            \<and> mapped w1 = mapped w0 \<union> k_mmap k ` {..<i} \<and> buf_count d1 = n)
     \<and> mapped (snd (v4l2_init k d w)) = mapped w
     \<and> buf_count (fst (v4l2_init k d w)) = 0
     \<and> dev (fst (v4l2_init k d w)) = - 1"
proof -
  note fails = v4l2_create_mmap_fails_at [OF granted at before]
  from init_negotiate_succeeds [OF opened negotiated, of w] obtain d1 w1 where
    neg: "init_negotiate k d w = Inr (d1, w1)" by blast
  from fails [of d1 w1] obtain d2 w2 where "v4l2_create_mmap k d1 w1 = (- 1, d2, w2)"
    by blast
  with neg have "isl (v4l2_init_body k d w)"
    by (simp add: v4l2_init_body_def)
  from v4l2_init_failed [OF this state] fails show ?thesis
    by blast
qed


theorem failed_mapping_unmapped_by_init_witness:
  "(\<forall>d0 w0. \<exists>d1 w1. v4l2_create_mmap faulty d0 w0 = (- 1, d1, w1)
            \<and> mapped w1 = mapped w0 \<union> k_mmap faulty ` {..<2} \<and> buf_count d1 = 4)
     \<and> mapped (snd (v4l2_init faulty configured world0)) = {}
     \<and> buf_count (fst (v4l2_init faulty configured world0)) = 0
     \<and> dev (fst (v4l2_init faulty configured world0)) = - 1"
proof -
  have opened: "set_device configured = Some ''/dev/video0''" "k_open faulty ''/dev/video0'' \<noteq> - 1"
    by (simp_all add: configured_def faulty_def camera_def)
  have negotiated: "\<forall>a b c. k_s_fmt faulty a b c \<noteq> None" "\<forall>a b. k_s_parm faulty a b"
    by (simp_all add: faulty_def camera_def)
  have granted: "k_reqbufs faulty = Some 4" "(2::nat) \<le> 4"
    by (simp_all add: faulty_def camera_def)
  have at: "(2::nat) < 4" "k_querybuf faulty 2 = None \<or> k_mmap faulty 2 = MAP_FAILED"
    by (simp_all add: faulty_def camera_def)
  have before: "\<forall>j<2. k_querybuf faulty j \<noteq> None \<and> k_mmap faulty j \<noteq> MAP_FAILED"
    by (auto simp add: faulty_def camera_def MAP_FAILED_def less_2_cases_iff)
  have state: "buf_count configured = 0" "0 \<notin> mapped world0" "\<forall>j. k_mmap faulty j \<notin> mapped world0"
    by (simp_all add: configured_def world0_def)
  from failed_mapping_unmapped_by_init [OF opened negotiated granted at before state]
  show ?thesis by (simp add: world0_def)
qed

subsection \<open>Teardown\<close>

lemmas session_defs = session0_def configured_def running_world_def settings_25fps_def
  blank_settings_def unnamed_def

lemma v4l2_terminate_again:
  assumes "v4l2_terminate d w = (d1, w1)"
  shows "v4l2_terminate d1 w1 =
     (d1, if thread d \<noteq> 0
          then emit (EventDestroy (event d))
                 (emit (PthreadJoin (thread d)) (emit (EventSignal (event d)) w1))
          else w1)"
proof -
  from v4l2_terminate_result [OF assms]
  have "dev d1 = - 1" "buf_count d1 = 0" "thread d1 = thread d" "event d1 = event d"
    by simp_all
  then show ?thesis
    by (simp add: v4l2_terminate_def)
qed

lemma terminate_session0: "v4l2_terminate session0 running_world = (session0\<lparr>dev := - 1, buf_count := 0\<rparr>,
   \<lparr>mapped = {}, trace = [EventSignal 1, PthreadJoin 7, EventDestroy 1, V4l2Munmap 65536 4096,
        V4l2Munmap 131072 4096, Bfree, V4l2Close 5]\<rparr>)"
  by (simp add: controller_defs session0_def running_world_def Let_def)

lemma terminate_session0_again: "v4l2_terminate (session0\<lparr>dev := - 1, buf_count := 0\<rparr>) w = (session0\<lparr>dev := - 1, buf_count := 0\<rparr>,
   w\<lparr>trace := trace w @ [EventSignal 1, PthreadJoin 7, EventDestroy 1]\<rparr>)"
  by (simp add: controller_defs session0_def Let_def)


lemma failing_restart_thread_calls: "filter is_thread_call
        (trace (snd (snd (v4l2_update unplugged settings_25fps session0 running_world))))
      = [EventSignal 1, PthreadJoin 7, EventDestroy 1,
         EventSignal 1, PthreadJoin 7, EventDestroy 1]"
  by (simp add: controller_defs scenario_defs session0_def running_world_def settings_25fps_def
      Let_def pixfmt_values)

text \<open>
  C2 at its failing input. \<open>session0\<close> is a source with a live capture thread, two mapped
  buffers and an open device. The first \<^verbatim>\<open>v4l2_terminate\<close> joins the thread, unmaps the
  buffers and closes the device; \<^verbatim>\<open>dev\<close> and \<^verbatim>\<open>buf_count\<close> are reset, \<^verbatim>\<open>thread\<close> is not,
  and a second \<^verbatim>\<open>v4l2_terminate\<close> right after signals the destroyed event, joins the
  joined thread and destroys the event again. The program reaches this when a restart
  fails: \<^verbatim>\<open>v4l2_update\<close> with a new frame rate on a device that no longer opens calls
  \<^verbatim>\<open>v4l2_terminate\<close>, then \<^verbatim>\<open>v4l2_init\<close>, whose \<^verbatim>\<open>fail\<close> label calls it again.
\<close>

theorem v4l2_terminate_twice_joins_again:
  "fst (v4l2_terminate session0 running_world) = session0\<lparr>dev := - 1, buf_count := 0\<rparr>
   \<and> thread (session0\<lparr>dev := - 1, buf_count := 0\<rparr>) = 7
   \<and> mapped (snd (v4l2_terminate session0 running_world)) = {}
   \<and> trace (snd (v4l2_terminate (session0\<lparr>dev := - 1, buf_count := 0\<rparr>)
              (snd (v4l2_terminate session0 running_world))))
      = trace (snd (v4l2_terminate session0 running_world))
          @ [EventSignal 1, PthreadJoin 7, EventDestroy 1]
   \<and> filter is_thread_call
        (trace (snd (snd (v4l2_update unplugged settings_25fps session0 running_world))))
      = [EventSignal 1, PthreadJoin 7, EventDestroy 1,
         EventSignal 1, PthreadJoin 7, EventDestroy 1]"
  by (simp add: terminate_session0 terminate_session0_again failing_restart_thread_calls)
     (simp add: session0_def)

subsection \<open>Configuration updates\<close>

lemma store_settings_eq:
  "store_settings s d =
     (d\<lparr>set_device := Some (device_id s), set_pixfmt := pixelformat s,
        set_res := resolution s, set_fps := framerate s\<rparr>, \<not> same_settings s d)"
  by (cases "set_device d") (auto simp add: store_settings_def same_settings_def Let_def)

lemma store_settings_same:
  "same_settings s d \<Longrightarrow> store_settings s d = (d, False)"
  by (simp add: store_settings_eq) (simp add: same_settings_def)


lemma update_device_id_named:
  "device_id s \<noteq> [] \<Longrightarrow> update_device_id k s w = (s, w)"
  by (simp add: update_device_id_def)

lemma update_blank_on_session0:
  "v4l2_update camera blank_settings session0 running_world =
     (settings0, session0,
      running_world\<lparr>trace := [OpenDir, V4l2Open (Some ''/dev/video0''),
        Ioctl 5 VIDIOC_QUERYCAP, Blog LOG_INFO ''Found device '%s' at %s'', SysClose 5,
        CloseDir]\<rparr>)"
  by (simp add: controller_defs scenario_defs session_defs Let_def pixfmt_values)

lemma update_blank_on_unnamed:
  "v4l2_update camera blank_settings unnamed w =
     (settings0,
      session0,
      \<lparr>mapped = insert 0x20000 (insert 0x10000 (mapped w)),
       trace = trace w @
        [OpenDir, V4l2Open (Some ''/dev/video0''), Ioctl 5 VIDIOC_QUERYCAP,
         Blog LOG_INFO ''Found device '%s' at %s'', SysClose 5, CloseDir,
         Blog LOG_INFO ''Start capture from %s'', V4l2Open (Some ''/dev/video0''),
         Ioctl 5 (VIDIOC_S_FMT 640 480 1448695129), Blog LOG_INFO ''Resolution: %lux%lu'',
         Blog LOG_INFO ''Linesize: %lu Bytes'', Ioctl 5 (VIDIOC_S_PARM 1 30),
         Blog LOG_INFO ''Framerate: %s fps'', Ioctl 5 (VIDIOC_REQBUFS 4), Bzalloc 2,
         Ioctl 5 (VIDIOC_QUERYBUF 0), V4l2Mmap 4096 0, Ioctl 5 (VIDIOC_QUERYBUF 1),
         V4l2Mmap 4096 4096, EventInit, PthreadCreate]\<rparr>)"
  by (simp add: controller_defs scenario_defs session_defs Let_def pixfmt_values
      upt_0_2 replicate_2)

lemma create_blank_unplugged:
  "v4l2_create unplugged blank_settings 1 world0 =
     (blank_settings, unnamed,
      \<lparr>mapped = {},
       trace = [OpenDir, CloseDir, Blog LOG_INFO ''Start capture from %s'',
         V4l2Open (Some []), Blog LOG_ERROR ''Unable to open device'',
         Blog LOG_ERROR ''Initialization failed'']\<rparr>)"
  by (simp add: controller_defs scenario_defs session_defs Let_def pixfmt_values)

text \<open>
  C3, as the code has it. Let \<open>s1\<close> be the settings after the opening of \<^verbatim>\<open>v4l2_update\<close>
  (a blank device id replaced by the first enumerated capture device) and \<open>w1\<close> the
  world after it. If the stored configuration equals \<open>s1\<close> in all four fields, the update
  returns the data and \<open>w1\<close> unchanged: no stop, no start. If any field differs, the frame
  rate alone included, the four values of \<open>s1\<close> are stored, \<^verbatim>\<open>v4l2_terminate\<close> runs on that
  state and leaves the device closed and no buffer pool, and the result is that of
  \<^verbatim>\<open>v4l2_init\<close> on the terminated state. When the supplied device id is not blank,
  \<open>s1\<close> and \<open>w1\<close> are the supplied settings and the world before the call: no call at all
  is made on the unchanged path.
\<close>

theorem v4l2_update_restarts_iff_changed:
  assumes chosen: "update_device_id k s w = (s1, w1)"
  shows "(same_settings s1 d \<longrightarrow> v4l2_update k s d w = (s1, d, w1))
     \<and> (\<not> same_settings s1 d \<longrightarrow>
          (\<exists>d5 w2. v4l2_terminate
                       (d\<lparr>set_device := Some (device_id s1), set_pixfmt := pixelformat s1,
                          set_res := resolution s1, set_fps := framerate s1\<rparr>) w1 = (d5, w2)
                  \<and> dev d5 = - 1 \<and> buf_count d5 = 0
                  \<and> v4l2_update k s d w = (s1, v4l2_init k d5 w2)))
     \<and> (device_id s \<noteq> [] \<longrightarrow> s1 = s \<and> w1 = w)"
proof -
  have unchanged: "v4l2_update k s d w = (s1, d, w1)" if "same_settings s1 d"
    using chosen that by (simp add: v4l2_update_def store_settings_same)
  have named: "s1 = s \<and> w1 = w" if "device_id s \<noteq> []"
    using chosen that by (simp add: update_device_id_named)
  have restart: "\<exists>d5 w2. v4l2_terminate
                       (d\<lparr>set_device := Some (device_id s1), set_pixfmt := pixelformat s1,
                          set_res := resolution s1, set_fps := framerate s1\<rparr>) w1 = (d5, w2)
                  \<and> dev d5 = - 1 \<and> buf_count d5 = 0
                  \<and> v4l2_update k s d w = (s1, v4l2_init k d5 w2)"
    if changed: "\<not> same_settings s1 d"
  proof -
  let ?d4 = "d\<lparr>set_device := Some (device_id s1), set_pixfmt := pixelformat s1,
                set_res := resolution s1, set_fps := framerate s1\<rparr>"
  obtain d5 w2 where stop: "v4l2_terminate ?d4 w1 = (d5, w2)"
    by (cases "v4l2_terminate ?d4 w1")
  from v4l2_terminate_result [OF stop] have "dev d5 = - 1" "buf_count d5 = 0"
    by simp_all
  moreover from chosen changed stop have "v4l2_update k s d w = (s1, v4l2_init k d5 w2)"
    by (simp add: v4l2_update_def store_settings_eq split: prod.splits)
  ultimately show ?thesis
    using stop by blast
  qed
  from unchanged restart named show ?thesis by blast
qed


theorem v4l2_update_restarts_iff_changed_witness:
  "update_device_id camera settings_25fps running_world = (settings_25fps, running_world)
   \<and> \<not> same_settings settings_25fps session0
   \<and> (\<exists>d5 w2. v4l2_terminate (session0\<lparr>set_fps := framerate settings_25fps\<rparr>) running_world
                  = (d5, w2)
            \<and> dev d5 = - 1 \<and> buf_count d5 = 0
            \<and> v4l2_update camera settings_25fps session0 running_world
                  = (settings_25fps, v4l2_init camera d5 w2))
   \<and> update_device_id camera settings0 running_world = (settings0, running_world)
   \<and> same_settings settings0 session0
   \<and> v4l2_update camera settings0 session0 running_world = (settings0, session0, running_world)"
proof -
  have a: "update_device_id camera settings_25fps running_world = (settings_25fps, running_world)"
    by (simp add: update_device_id_def session_defs scenario_defs)
  have b: "\<not> same_settings settings_25fps session0"
    by (simp add: same_settings_def session_defs scenario_defs pack_tuple_def)
  have c: "update_device_id camera settings0 running_world = (settings0, running_world)"
    by (simp add: update_device_id_def session_defs scenario_defs)
  have d: "same_settings settings0 session0"
    by (simp add: same_settings_def session_defs scenario_defs pack_tuple_def pixfmt_values)
  have e: "session0\<lparr>set_device := Some (device_id settings_25fps),
              set_pixfmt := pixelformat settings_25fps,
              set_res := resolution settings_25fps, set_fps := framerate settings_25fps\<rparr>
           = session0\<lparr>set_fps := framerate settings_25fps\<rparr>"
    by (simp add: session_defs scenario_defs pack_tuple_def pixfmt_values)
  from v4l2_update_restarts_iff_changed [OF a, of session0]
    v4l2_update_restarts_iff_changed [OF c, of session0] a b c d
  show ?thesis by (simp add: e)
qed

text \<open>
  C3 as stated fails where the supplied device id is blank, because the comparison is
  made with the id the enumeration substitutes. The stored device is \<^verbatim>\<open>/dev/video0\<close> and
  the supplied one is blank, so the device id differs, yet nothing is stopped or
  started: the data are unchanged and the only calls are those of the enumeration.
  And the stored configuration equals the supplied one in all four fields (both device
  ids blank), yet the update restarts and ends with a running session, because the
  enumeration now finds a device.
\<close>

theorem v4l2_update_counterexample:
  "set_device session0 = Some ''/dev/video0'' \<and> device_id blank_settings = []
   \<and> v4l2_update camera blank_settings session0 running_world =
       (settings0, session0,
        running_world\<lparr>trace := [OpenDir, V4l2Open (Some ''/dev/video0''),
          Ioctl 5 VIDIOC_QUERYCAP, Blog LOG_INFO ''Found device '%s' at %s'', SysClose 5,
          CloseDir]\<rparr>)
   \<and> same_settings blank_settings unnamed
   \<and> fst (snd (v4l2_update camera blank_settings unnamed world0)) = session0
   \<and> thread session0 = 7 \<and> dev session0 = 5 \<and> buf_count session0 = 2"
  by (simp add: update_blank_on_session0 update_blank_on_unnamed)
     (simp add: same_settings_def session_defs scenario_defs pixfmt_values pack_tuple_def)

lemma create_mmap_loop_settings:
  "create_mmap_loop k js d w = (r, d', w') \<Longrightarrow>
     set_device d' = set_device d \<and> set_pixfmt d' = set_pixfmt d \<and> set_res d' = set_res d
     \<and> set_fps d' = set_fps d \<and> thread d' = thread d \<and> event d' = event d"
proof (induction js arbitrary: d w)
  case Nil
  then show ?case by simp
next
  case (Cons i js)
  show ?case
  proof (cases "k_querybuf k i = None \<or> k_mmap k i = MAP_FAILED")
    case True
    with Cons.prems show ?thesis
      by (auto simp add: Let_def split: option.splits)
  next
    case False
    then obtain len off where q: "k_querybuf k i = Some (len, off)" and p: "k_mmap k i \<noteq> MAP_FAILED"
      by auto
    from Cons.prems have rec: "create_mmap_loop k js
       (d\<lparr>buf := (buf d)[i := \<lparr>buf_length = len, buf_start = k_mmap k i\<rparr>]\<rparr>)
       ((emit (V4l2Mmap len off) (emit (Ioctl (dev d) (VIDIOC_QUERYBUF i)) w))
          \<lparr>mapped := insert (k_mmap k i) (mapped w)\<rparr>) = (r, d', w')"
      by (simp only: create_mmap_loop_step [OF q p])
    from Cons.IH [OF rec] show ?thesis by simp
  qed
qed

lemma v4l2_create_mmap_settings:
  "v4l2_create_mmap k d w = (r, d', w') \<Longrightarrow>
     set_device d' = set_device d \<and> set_pixfmt d' = set_pixfmt d \<and> set_res d' = set_res d
     \<and> set_fps d' = set_fps d \<and> thread d' = thread d \<and> event d' = event d"
  by (auto simp add: v4l2_create_mmap_def Let_def split: option.splits if_splits
      dest!: create_mmap_loop_settings)

lemma v4l2_init_body_settings:
  assumes "v4l2_init_body k d w = Inl (d', w') \<or> v4l2_init_body k d w = Inr (d', w')"
  shows "same_settings s d' = same_settings s d"
proof (cases "init_negotiate k d w")
  case (Inl failed)
  with assms have "init_negotiate k d w = Inl (d', w')"
    by (auto simp add: v4l2_init_body_def)
  with init_negotiate_frame [of k d w d' w'] show ?thesis
    by (simp add: same_settings_def)
next
  case (Inr ok)
  obtain d2 w2 where ok: "ok = (d2, w2)" by (cases ok)
  obtain r d3 w3 where mm: "v4l2_create_mmap k d2 w2 = (r, d3, w3)"
    by (cases "v4l2_create_mmap k d2 w2")
  from init_negotiate_frame [of k d w d2 w2] Inr ok
  have s2: "same_settings s d2 = same_settings s d"
    by (simp add: same_settings_def)
  from v4l2_create_mmap_settings [OF mm]
  have s3: "same_settings s d3 = same_settings s d2"
    by (simp add: same_settings_def)
  show ?thesis
  proof (cases "r < 0")
    case True
    with assms Inr ok mm have "d' = d3"
      by (auto simp add: v4l2_init_body_def)
    with s2 s3 show ?thesis by simp
  next
    case False
    with assms Inr ok mm
    have "init_start_thread k d3 w3 = Inl (d', w') \<or> init_start_thread k d3 w3 = Inr (d', w')"
      by (simp add: v4l2_init_body_def)
    from init_start_thread_frame [OF this] s2 s3 show ?thesis
      by (simp add: same_settings_def)
  qed
qed

text \<open>
  C10, as the code has it. An update finds a change and restarts: the values of \<open>s1\<close> are
  stored, \<^verbatim>\<open>v4l2_terminate\<close> leaves \<open>d5\<close>, and \<^verbatim>\<open>v4l2_init\<close> fails on it. Then \<open>d5\<close>, the
  state \<^verbatim>\<open>v4l2_init\<close> was entered with, already held the new configuration; the update
  returns a source that still holds it, with the device closed and no buffer pool; and
  a later update with the settings as the first one left them, whose device id is not
  blank, changes nothing and makes no call, whatever the devices would answer then.
\<close>

theorem failed_init_not_retried:
  assumes chosen: "update_device_id k1 s w = (s1, w0)" and named: "device_id s1 \<noteq> []"
    and changed: "\<not> same_settings s1 d"
    and stopped: "v4l2_terminate (fst (store_settings s1 d)) w0 = (d5, w2)"
    and failed: "isl (v4l2_init_body k1 d5 w2)"
  shows "same_settings s1 d5
     \<and> (\<exists>d1 w1. v4l2_update k1 s d w = (s1, d1, w1)
           \<and> same_settings s1 d1 \<and> dev d1 = - 1 \<and> buf_count d1 = 0
           \<and> (\<forall>k2. v4l2_update k2 s1 d1 w1 = (s1, d1, w1)))"
proof -
  let ?d4 = "fst (store_settings s1 d)"
  have stored: "same_settings s1 ?d4"
    by (simp add: store_settings_eq same_settings_def)
  from v4l2_terminate_result [OF stopped] have s5: "same_settings s1 d5 = same_settings s1 ?d4"
    by (simp add: same_settings_def)
  with stored have committed: "same_settings s1 d5" by simp
  from failed obtain df wf where body: "v4l2_init_body k1 d5 w2 = Inl (df, wf)"
    by (cases "v4l2_init_body k1 d5 w2") auto
  from v4l2_init_body_settings [of k1 d5 w2 df wf s1] body committed
  have sf: "same_settings s1 df" by simp
  let ?wf = "emit (Blog LOG_ERROR ''Initialization failed'') wf"
  obtain d1 w1 where t: "v4l2_terminate df ?wf = (d1, w1)"
    by (cases "v4l2_terminate df ?wf")
  from v4l2_terminate_result [OF t] sf
  have d1: "same_settings s1 d1" "dev d1 = - 1" "buf_count d1 = 0"
    by (simp_all add: same_settings_def)
  from body t have init: "v4l2_init k1 d5 w2 = (d1, w1)"
    by (simp add: v4l2_init_def)
  from chosen changed stopped init have first: "v4l2_update k1 s d w = (s1, d1, w1)"
    by (simp add: v4l2_update_def store_settings_eq)
  have later: "v4l2_update k2 s1 d1 w1 = (s1, d1, w1)" for k2
    using named d1(1) by (simp add: v4l2_update_def update_device_id_named store_settings_same)
  from committed first d1 later show ?thesis by blast
qed

theorem failed_init_not_retried_witness:
  "update_device_id unplugged settings_25fps world0 = (settings_25fps, world0)
   \<and> device_id settings_25fps \<noteq> []
   \<and> \<not> same_settings settings_25fps configured
   \<and> v4l2_terminate (fst (store_settings settings_25fps configured)) world0
       = (configured\<lparr>set_fps := framerate settings_25fps\<rparr>, world0)
   \<and> isl (v4l2_init_body unplugged (configured\<lparr>set_fps := framerate settings_25fps\<rparr>) world0)
   \<and> same_settings settings_25fps (configured\<lparr>set_fps := framerate settings_25fps\<rparr>)
   \<and> (\<exists>d1 w1. v4l2_update unplugged settings_25fps configured world0
                  = (settings_25fps, d1, w1)
           \<and> same_settings settings_25fps d1 \<and> dev d1 = - 1 \<and> buf_count d1 = 0
           \<and> (\<forall>k2. v4l2_update k2 settings_25fps d1 w1 = (settings_25fps, d1, w1)))
   \<and> thread configured = 0
   \<and> trace (snd (snd (v4l2_update unplugged settings_25fps configured world0)))
       = [Blog LOG_INFO ''Start capture from %s'', V4l2Open (Some ''/dev/video0''),
          Blog LOG_ERROR ''Unable to open device'', Blog LOG_ERROR ''Initialization failed'']"
proof -
  let ?d5 = "configured\<lparr>set_fps := framerate settings_25fps\<rparr>"
  have chosen: "update_device_id unplugged settings_25fps world0 = (settings_25fps, world0)"
    and named: "device_id settings_25fps \<noteq> []"
    by (simp_all add: update_device_id_def session_defs scenario_defs)
  have changed: "\<not> same_settings settings_25fps configured"
    by (simp add: same_settings_def session_defs scenario_defs pack_tuple_def)
  have stopped: "v4l2_terminate (fst (store_settings settings_25fps configured)) world0
      = (?d5, world0)"
    by (simp add: store_settings_eq v4l2_terminate_def v4l2_destroy_mmap_def Let_def
        session_defs scenario_defs pack_tuple_def pixfmt_values)
  have failed: "isl (v4l2_init_body unplugged ?d5 world0)"
    by (simp add: v4l2_init_body_def init_negotiate_def Let_def unplugged_def camera_def
        configured_def)
  have calls: "thread configured = 0"
    "trace (snd (snd (v4l2_update unplugged settings_25fps configured world0)))
       = [Blog LOG_INFO ''Start capture from %s'', V4l2Open (Some ''/dev/video0''),
          Blog LOG_ERROR ''Unable to open device'', Blog LOG_ERROR ''Initialization failed'']"
    by (simp_all add: controller_defs scenario_defs session_defs Let_def pixfmt_values
        pack_tuple_def)
  from failed_init_not_retried [OF chosen named changed stopped failed]
    chosen named changed stopped failed calls
  show ?thesis by simp
qed

text \<open>
  C10 as stated fails for a blank device id. With no device present the first update
  stores the blank id and \<^verbatim>\<open>v4l2_init\<close> fails. A later update carrying the identical
  settings, after the camera has appeared, enumerates again, finds the stored id
  different from the substituted one and restarts: the failed initialisation is retried
  and the source captures.
\<close>

theorem failed_init_retried_counterexample:
  "fst (v4l2_create unplugged blank_settings 1 world0) = blank_settings
   \<and> fst (snd (v4l2_create unplugged blank_settings 1 world0)) = unnamed
   \<and> last (trace (snd (snd (v4l2_create unplugged blank_settings 1 world0))))
       = Blog LOG_ERROR ''Initialization failed''
   \<and> same_settings blank_settings unnamed
   \<and> dev unnamed = - 1 \<and> buf_count unnamed = 0 \<and> thread unnamed = 0
   \<and> fst (snd (v4l2_update camera blank_settings unnamed
         (snd (snd (v4l2_create unplugged blank_settings 1 world0))))) = session0
   \<and> dev session0 = 5 \<and> thread session0 = 7 \<and> buf_count session0 = 2"
  unfolding create_blank_unplugged
  by (simp add: update_blank_on_unnamed)
     (simp add: same_settings_def session_defs scenario_defs pixfmt_values pack_tuple_def)

subsection \<open>Device enumeration\<close>

lemma default_device_Cons:
  "default_device k (dp # rest) s =
     (if capture_device k dp then s\<lparr>device_id := device_path dp\<rparr> else default_device k rest s)"
  by (simp add: default_device_def)

lemma default_device_skip:
  "\<not> capture_device k dp \<Longrightarrow> default_device k (dp # rest) = default_device k rest"
  by (rule ext) (simp add: default_device_Cons)

lemma device_list_loop_capture:
  "capture_device k dp \<Longrightarrow>
   \<exists>w1. device_list_loop k (dp # rest) flag plist s w =
     device_list_loop k rest False
       (obs_property_list_add_string plist (fst (device_item k dp)) (device_path dp))
       (if flag then obs_data_setstring_device_id s (device_path dp) else s) w1"
  by (auto simp add: capture_device_def device_item_def device_path_def Let_def
      split: option.splits)

lemma device_list_loop_skip:
  "\<not> capture_device k dp \<Longrightarrow>
   \<exists>w1. device_list_loop k (dp # rest) flag plist s w = device_list_loop k rest flag plist s w1"
  by (auto simp add: capture_device_def device_path_def Let_def split: option.splits)

lemma device_list_loop_result:
  "device_list_loop k entries flag plist s w = (plist', s', w') \<Longrightarrow>
     plist' = map_option (\<lambda>items. items @ map (device_item k) (filter (capture_device k) entries)) plist
     \<and> s' = (if flag then map_option (default_device k entries) s else s)"
proof (induction entries arbitrary: flag plist s w)
  case Nil
  then show ?case
    by (cases plist; cases s) (auto simp add: default_device_def)
next
  case (Cons dp rest)
  show ?case
  proof (cases "capture_device k dp")
    case True
    from device_list_loop_capture [OF True, of rest flag plist s w] Cons.prems obtain w1 where
      rec: "device_list_loop k rest False
             (obs_property_list_add_string plist (fst (device_item k dp)) (device_path dp))
             (if flag then obs_data_setstring_device_id s (device_path dp) else s)
             w1 = (plist', s', w')"
      by auto
    have item: "device_item k dp = (fst (device_item k dp), device_path dp)"
      by (simp add: device_item_def split: option.splits)
    from Cons.IH [OF rec] True show ?thesis
      by (cases plist; cases s)
        (auto simp add: obs_property_list_add_string_def obs_data_setstring_device_id_def
          default_device_Cons item [symmetric])
  next
    case False
    from device_list_loop_skip [OF False, of rest flag plist s w] Cons.prems obtain w1 where
      rec: "device_list_loop k rest flag plist s w1 = (plist', s', w')"
      by auto
    from Cons.IH [OF rec] False show ?thesis
      by (simp add: default_device_skip)
  qed
qed

lemma v4l2_device_list_run:
  assumes listing: "k_opendir k = Some entries"
  shows "\<exists>w'. v4l2_device_list k p s0 w =
      (map_option (\<lambda>items. items @ map (device_item k) (filter (capture_device k) entries))
         (obs_property_list_clear p),
       map_option (default_device k entries) s0, w')"
proof -
  obtain p' s' w' where loop: "device_list_loop k entries True (obs_property_list_clear p) s0
      (emit OpenDir w) = (p', s', w')"
    by (cases "device_list_loop k entries True (obs_property_list_clear p) s0 (emit OpenDir w)")
  from device_list_loop_result [OF loop] loop listing show ?thesis
    by (simp add: v4l2_device_list_def Let_def)
qed

text \<open>
  C6. \<^verbatim>\<open>v4l2_device_list\<close> is called from two places. \<^verbatim>\<open>v4l2_properties\<close> calls it with
  the device property and null settings: when the directory opens, the property list is
  cleared and filled with exactly the capture devices among the entries, in directory
  order (an entry that is a directory, does not open, fails the capability query or
  lacks capture capability is passed over and the enumeration goes on with the next
  entry; the function has no error result), and the settings stay null.
  \<^verbatim>\<open>v4l2_update\<close> calls it with the settings only when their device id is blank. So
  with a device configured, the settings keep it and no call of the enumeration is made;
  with none configured, the first capture device of the listing is written as the
  device id, and the settings stay as they are when there is no capture device. The
  settings \<^verbatim>\<open>v4l2_update\<close> ends with are those.
\<close>

theorem v4l2_device_list_default:
  assumes listing: "k_opendir k = Some entries"
  shows "fst (v4l2_device_list k (Some items) None w)
       = Some (map (device_item k) (filter (capture_device k) entries))
     \<and> fst (snd (v4l2_device_list k (Some items) None w)) = None
     \<and> (device_id x \<noteq> [] \<longrightarrow>
          update_device_id k x w = (x, w) \<and> fst (v4l2_update k x d w) = x)
     \<and> (device_id x = [] \<longrightarrow>
          fst (update_device_id k x w) = default_device k entries x
          \<and> fst (v4l2_update k x d w) = default_device k entries x)"
proof -
  from v4l2_device_list_run [OF listing, of "Some items" None w]
  have a: "fst (v4l2_device_list k (Some items) None w)
       = Some (map (device_item k) (filter (capture_device k) entries))"
    and b: "fst (snd (v4l2_device_list k (Some items) None w)) = None"
    by (auto simp add: obs_property_list_clear_def)
  have settings_of_update: "fst (v4l2_update k x d w) = fst (update_device_id k x w)"
    by (simp add: v4l2_update_def split: prod.splits)
  have c: "update_device_id k x w = (x, w)" if "device_id x \<noteq> []"
    using that by (simp add: update_device_id_def)
  from v4l2_device_list_run [OF listing, of None "Some x" w]
  have e: "fst (update_device_id k x w) = default_device k entries x" if "device_id x = []"
    using that by (auto simp add: update_device_id_def)
  from a b c e settings_of_update show ?thesis
    by simp
qed

theorem v4l2_device_list_default_witness:
  "k_opendir sysfs = Some
       [\<lparr>d_name = ''subdir'', d_type = 4\<rparr>, \<lparr>d_name = ''video0'', d_type = 10\<rparr>,
        \<lparr>d_name = ''video1'', d_type = 10\<rparr>, \<lparr>d_name = ''video2'', d_type = 10\<rparr>,
        \<lparr>d_name = ''video3'', d_type = 10\<rparr>, \<lparr>d_name = ''video4'', d_type = 10\<rparr>]
   \<and> fst (v4l2_device_list sysfs (Some [(''old'', ''entry'')]) None world0)
       = Some [(''Webcam'', ''/dev/video3''), (''Webcam'', ''/dev/video4'')]
   \<and> fst (snd (v4l2_device_list sysfs (Some [(''old'', ''entry'')]) None world0)) = None
   \<and> device_id settings0 \<noteq> [] \<and> update_device_id sysfs settings0 world0 = (settings0, world0)
   \<and> fst (v4l2_update sysfs settings0 configured world0) = settings0
   \<and> device_id blank_settings = []
   \<and> fst (update_device_id sysfs blank_settings world0)
       = blank_settings\<lparr>device_id := ''/dev/video3''\<rparr>
   \<and> fst (v4l2_update sysfs blank_settings configured world0)
       = blank_settings\<lparr>device_id := ''/dev/video3''\<rparr>"
proof -
  let ?entries = "[\<lparr>d_name = ''subdir'', d_type = 4\<rparr>, \<lparr>d_name = ''video0'', d_type = 10\<rparr>,
        \<lparr>d_name = ''video1'', d_type = 10\<rparr>, \<lparr>d_name = ''video2'', d_type = 10\<rparr>,
        \<lparr>d_name = ''video3'', d_type = 10\<rparr>, \<lparr>d_name = ''video4'', d_type = 10\<rparr>]"
  have listing: "k_opendir sysfs = Some ?entries"
    by (simp add: sysfs_def camera_def)
  have usable: "filter (capture_device sysfs) ?entries
      = [\<lparr>d_name = ''video3'', d_type = 10\<rparr>, \<lparr>d_name = ''video4'', d_type = 10\<rparr>]"
    by (simp add: capture_device_def device_path_def sysfs_def camera_def DT_DIR_def
        V4L2_CAP_VIDEO_CAPTURE_def)
  have items: "map (device_item sysfs)
        [\<lparr>d_name = ''video3'', d_type = 10\<rparr>, \<lparr>d_name = ''video4'', d_type = 10\<rparr>]
      = [(''Webcam'', ''/dev/video3''), (''Webcam'', ''/dev/video4'')]"
    by (simp add: device_item_def device_path_def sysfs_def camera_def)
  have names: "device_id settings0 \<noteq> []" "device_id blank_settings = []"
    by (simp_all add: settings0_def blank_settings_def)
  have chosen: "default_device sysfs ?entries x = x\<lparr>device_id := ''/dev/video3''\<rparr>" for x
    by (simp only: default_device_def usable) (simp add: device_path_def)
  note blank = v4l2_device_list_default [OF listing, where items = "[(''old'', ''entry'')]"
      and w = world0 and x = blank_settings and d = configured, unfolded usable items chosen]
  note named = v4l2_device_list_default [OF listing, where items = "[]"
      and w = world0 and x = settings0 and d = configured, unfolded usable items chosen]
  from blank named listing names show ?thesis
    by simp
qed

end
